theory Spec2Isabelle
  imports Main "HOL-Library.Word"
begin

section \<open>The TCP client of ESP-Signer (GAuth\_TCP\_Client.h)\<close>

text \<open>
  \<^verbatim>\<open>GAuth_TCP_Client\<close> wraps an Arduino \<^verbatim>\<open>Client\<close> (a \<^verbatim>\<open>WiFiClientSecure\<close> it owns, or
  a client supplied from outside) and reports errors through an \<^verbatim>\<open>int\<close> the caller
  registers with \<^verbatim>\<open>begin\<close>. The header is compiled for several targets; the
  preprocessor symbols that select the code are a parameter of the model, and so is
  everything the header only calls: the methods of the underlying client, of the WiFi and
  Ethernet drivers and of the file system, and the error macros of
  \<^verbatim>\<open>ESP_Signer_Error.h\<close>.
\<close>

subsection \<open>Machine types\<close>

text \<open>
  All three targets are 32-bit: \<^verbatim>\<open>int\<close>, \<^verbatim>\<open>size_t\<close>, \<^verbatim>\<open>uint32_t\<close> and
  \<^verbatim>\<open>unsigned long\<close> are 32-bit words. A conversion between \<^verbatim>\<open>int\<close> and \<^verbatim>\<open>size_t\<close>
  keeps the bits, so both are the same word type; a signed comparison reads the word
  with \<open><s\<close>. A pointer is an optional address, \<open>None\<close> being the null pointer.
\<close>

type_synonym uint8_t = "8 word"
type_synonym uint16_t = "16 word"
type_synonym uint32_t = "32 word"
type_synonym int_t = "32 word"
type_synonym size_t = "32 word"
type_synonym addr = nat

text \<open>
  What a call does: it returns, it dereferences a null pointer (undefined behaviour in
  C++), or it loops forever.
\<close>

datatype 'a outcome = Returns 'a | Null_Deref | Diverges

fun bind_outcome :: "'a outcome \<Rightarrow> ('a \<Rightarrow> 'b outcome) \<Rightarrow> 'b outcome" where
  "bind_outcome (Returns x) f = f x"
| "bind_outcome Null_Deref f = Null_Deref"
| "bind_outcome Diverges f = Diverges"

subsection \<open>Build configuration and constants\<close>

text \<open>
  The targets the header names. The code outside \<^verbatim>\<open>ESP_SIGNER_ENABLE_EXTERNAL_CLIENT\<close>
  compiles on these three only, and the code inside it does not look at the target.
\<close>

datatype target = ESP32 | ESP8266 | PICO_RP2040

text \<open>
  \<open>ESP_IDF_3_3_0\<close> stands for \<^verbatim>\<open>__has_include(<esp_idf_version.h>)\<close> together with
  \<^verbatim>\<open>ESP_IDF_VERSION >= ESP_IDF_VERSION_VAL(3, 3, 0)\<close>; the other fields are the
  preprocessor symbols of the same name.
\<close>

record build =
  target :: target
  ESP_SIGNER_ENABLE_EXTERNAL_CLIENT :: bool
  ESP_IDF_3_3_0 :: bool
  MBFS_FLASH_FS :: bool
  MBFS_ESP32_SDFAT_ENABLED :: bool
  MBFS_SD_FS :: bool
  ESP8266_CORE_SDK_V3_X_X :: bool
  INC_ENC28J60_LWIP :: bool
  INC_W5100_LWIP :: bool
  INC_W5500_LWIP :: bool

definition BearSSL :: "build \<Rightarrow> bool" where
  "BearSSL B = (target B = ESP8266 \<or> target B = PICO_RP2040)"

text \<open>
  The error macros (each \<^verbatim>\<open>ESP_SIGNER_ERROR_\<close>\<open>\<dots>\<close>) are defined in
  \<^verbatim>\<open>ESP_Signer_Error.h\<close>, which is not part of the sources at hand: their values are a
  parameter.
\<close>

record codes =
  TCP_ERROR_CONNECTION_REFUSED :: int_t
  TCP_ERROR_SEND_REQUEST_FAILED :: int_t
  TCP_ERROR_NOT_CONNECTED :: int_t
  TCP_RESPONSE_READ_FAILED :: int_t
  HTTP_CODE_OK :: int_t

datatype esp_signer_cert_type =
  esp_signer_cert_type_undefined
| esp_signer_cert_type_none
| esp_signer_cert_type_data
| esp_signer_cert_type_file

datatype mb_fs_mem_storage_type =
  mb_fs_mem_storage_type_undefined
| mb_fs_mem_storage_type_flash
| mb_fs_mem_storage_type_sd

text \<open>The three driver pointers of \<^verbatim>\<open>SPI_ETH_Module\<close>.\<close>

record SPI_ETH_Module =
  enc28j60 :: "addr option"
  w5100 :: "addr option"
  w5500 :: "addr option"

subsection \<open>The object and what it reaches\<close>

text \<open>
  The record holds the data members of \<^verbatim>\<open>GAuth_TCP_Client\<close> and, after them, the two
  pieces of state outside the object that its methods reach: \<open>ints\<close>, the memory cells
  an \<^verbatim>\<open>int *\<close> such as \<open>response_code\<close> can point to, and \<open>env\<close>, the state of the
  platform (the client objects, the network drivers, the file system). Of
  \<^verbatim>\<open>esp_signer_gauth_cfg_t\<close> only the member \<^verbatim>\<open>spi_ethernet_module\<close> is used, so \<open>config\<close>
  holds that member; \<open>cert\<close> and \<open>x509\<close> hold the bytes of the buffer they point to.
\<close>

record 'e GAuth_TCP_Client =
  client :: "addr option"
  esp_signer_network_connection_cb :: "addr option"
  esp_signer_network_status_cb :: "addr option"
  esp_signer_networkStatus :: bool
  cert :: "uint8_t list option"
  certType :: esp_signer_cert_type
  host :: string
  port :: uint16_t
  ip :: uint32_t
  response_code :: "addr option"
  timeoutmSec :: uint32_t
  config :: "SPI_ETH_Module option"
  mbfs :: "addr option"
  bsslRxSize :: uint16_t
  bsslTxSize :: uint16_t
  x509 :: "uint8_t list option"
  eth :: "SPI_ETH_Module option"
  clockReady :: bool
  ints :: "addr \<Rightarrow> int_t"
  env :: 'e

text \<open>
  The collaborators. Every method takes the address of the object it is called on and
  the platform state, and returns its result with the new platform state.
  \<open>Client_write p d n\<close> is \<^verbatim>\<open>client->write(data, size)\<close> for the buffer holding \<open>d\<close>;
  \<open>Client_readBytes p n\<close> returns the count and the bytes it stored into the buffer;
  \<open>Client_loadCACert p m st n\<close> is \<^verbatim>\<open>client->loadCACert(file, len)\<close> for the file that
  \<^verbatim>\<open>mbfs->getFlashFile()\<close> or \<^verbatim>\<open>mbfs->getSDFile()\<close> returns; \<open>Client_setTrustAnchors\<close>
  takes the bytes the \<^verbatim>\<open>X509List\<close> is built from; \<open>MB_FS_open\<close> is always called with
  \<^verbatim>\<open>mb_fs_open_mode_read\<close>; \<open>MB_FS_read p st buf n\<close> returns the buffer as the read
  leaves it; \<open>Client_delete\<close> destroys the client object, as \<^verbatim>\<open>client.reset(nullptr)\<close>
  does; \<open>MemoryHelper_freeBuffer m buf\<close> is \<^verbatim>\<open>MemoryHelper::freeBuffer(mbfs, cert)\<close> and
  returns what the pointer holds afterwards; \<open>WiFi_connected\<close> is
  \<^verbatim>\<open>WiFi.status() == WL_CONNECTED\<close> and \<open>Eth_connected\<close> the same test on an Ethernet
  driver; \<open>status_cb\<close> runs the callback of the external-client build, which is free to
  call the object's own methods.
\<close>

record 'e ops =
  Client_connected :: "addr \<Rightarrow> 'e \<Rightarrow> uint8_t \<times> 'e"
  Client_connect_host :: "addr \<Rightarrow> string \<Rightarrow> uint16_t \<Rightarrow> 'e \<Rightarrow> int_t \<times> 'e"
  Client_connect_ip :: "addr \<Rightarrow> uint32_t \<Rightarrow> uint16_t \<Rightarrow> 'e \<Rightarrow> int_t \<times> 'e"
  Client_setTimeout :: "addr \<Rightarrow> uint32_t \<Rightarrow> 'e \<Rightarrow> int_t \<times> 'e"
  Client_stop :: "addr \<Rightarrow> 'e \<Rightarrow> 'e"
  Client_write :: "addr \<Rightarrow> uint8_t list \<Rightarrow> size_t \<Rightarrow> 'e \<Rightarrow> int_t \<times> 'e"
  Client_available :: "addr \<Rightarrow> 'e \<Rightarrow> int_t \<times> 'e"
  Client_read :: "addr \<Rightarrow> 'e \<Rightarrow> int_t \<times> 'e"
  Client_peek :: "addr \<Rightarrow> 'e \<Rightarrow> int_t \<times> 'e"
  Client_readBytes :: "addr \<Rightarrow> int_t \<Rightarrow> 'e \<Rightarrow> (int_t \<times> uint8_t list) \<times> 'e"
  Client_setCACert :: "addr \<Rightarrow> uint8_t list option \<Rightarrow> 'e \<Rightarrow> 'e"
  Client_setInsecure :: "addr \<Rightarrow> 'e \<Rightarrow> 'e"
  Client_setTrustAnchors :: "addr \<Rightarrow> uint8_t list \<Rightarrow> 'e \<Rightarrow> 'e"
  Client_setBufferSizes :: "addr \<Rightarrow> uint16_t \<Rightarrow> uint16_t \<Rightarrow> 'e \<Rightarrow> 'e"
  Client_setNoDelay :: "addr \<Rightarrow> bool \<Rightarrow> 'e \<Rightarrow> 'e"
  Client_loadCACert :: "addr \<Rightarrow> addr \<Rightarrow> mb_fs_mem_storage_type \<Rightarrow> int_t \<Rightarrow> 'e \<Rightarrow> 'e"
  Client_delete :: "addr \<Rightarrow> 'e \<Rightarrow> 'e"
  MB_FS_open :: "addr \<Rightarrow> string \<Rightarrow> mb_fs_mem_storage_type \<Rightarrow> 'e \<Rightarrow> int_t \<times> 'e"
  MB_FS_available :: "addr \<Rightarrow> mb_fs_mem_storage_type \<Rightarrow> 'e \<Rightarrow> int_t \<times> 'e"
  MB_FS_read :: "addr \<Rightarrow> mb_fs_mem_storage_type \<Rightarrow> uint8_t list \<Rightarrow> int_t \<Rightarrow> 'e \<Rightarrow> uint8_t list \<times> 'e"
  MB_FS_close :: "addr \<Rightarrow> mb_fs_mem_storage_type \<Rightarrow> 'e \<Rightarrow> 'e"
  MemoryHelper_createBuffer :: "addr \<Rightarrow> int_t \<Rightarrow> 'e \<Rightarrow> uint8_t list \<times> 'e"
  MemoryHelper_freeBuffer :: "addr option \<Rightarrow> uint8_t list \<Rightarrow> 'e \<Rightarrow> uint8_t list option \<times> 'e"
  WiFi_connected :: "'e \<Rightarrow> bool \<times> 'e"
  ETH_localIP :: "'e \<Rightarrow> string \<times> 'e"
  ETH_linkUp :: "'e \<Rightarrow> bool \<times> 'e"
  Eth_connected :: "addr \<Rightarrow> 'e \<Rightarrow> bool \<times> 'e"
  status_cb :: "addr \<Rightarrow> 'e GAuth_TCP_Client \<Rightarrow> 'e GAuth_TCP_Client"

text \<open>\<^verbatim>\<open>client->\<close>\<open>\<dots>\<close> and \<^verbatim>\<open>mbfs->\<close>\<open>\<dots>\<close>: the pointer is read and dereferenced.\<close>

definition with_client :: "'e GAuth_TCP_Client \<Rightarrow> (addr \<Rightarrow> 'a outcome) \<Rightarrow> 'a outcome" where
  "with_client s f = (case client s of None \<Rightarrow> Null_Deref | Some p \<Rightarrow> f p)"

definition with_mbfs :: "'e GAuth_TCP_Client \<Rightarrow> (addr \<Rightarrow> 'a outcome) \<Rightarrow> 'a outcome" where
  "with_mbfs s f = (case mbfs s of None \<Rightarrow> Null_Deref | Some p \<Rightarrow> f p)"

subsection \<open>Construction\<close>

text \<open>
  The member initialisers and the constructor. \<open>p\<close> is the address of the
  \<^verbatim>\<open>WiFiClientSecure\<close> that the constructor allocates in the default build.
  \<open>bsslRxSize\<close>, \<open>bsslTxSize\<close>, \<open>x509\<close> and \<open>eth\<close> are members on ESP8266 and RP2040
  only, and nothing reads them elsewhere.
\<close>

definition GAuth_TCP_Client_new :: "build \<Rightarrow> addr \<Rightarrow> (addr \<Rightarrow> int_t) \<Rightarrow> 'e \<Rightarrow> 'e GAuth_TCP_Client" where
  "GAuth_TCP_Client_new B p m e =
     \<lparr> client = (if ESP_SIGNER_ENABLE_EXTERNAL_CLIENT B then None else Some p),
       esp_signer_network_connection_cb = None,
       esp_signer_network_status_cb = None,
       esp_signer_networkStatus = False,
       cert = None,
       certType = esp_signer_cert_type_undefined,
       host = [],
       port = 0,
       ip = 0,
       response_code = None,
       timeoutmSec = 10000,
       config = None,
       mbfs = None,
       bsslRxSize = (if target B = ESP8266 then 512 else 16384),
       bsslTxSize = 512,
       x509 = None,
       eth = None,
       clockReady = False,
       ints = m,
       env = e \<rparr>"

subsection \<open>Error reporting and simple members\<close>

text \<open>
  \<^verbatim>\<open>setError\<close> (lines 403--410), \<^verbatim>\<open>begin\<close> (287--293), \<^verbatim>\<open>getCertType\<close> (566--569),
  \<^verbatim>\<open>setClockStatus\<close> (577--580), \<^verbatim>\<open>setNetworkStatus\<close> (609--612) and \<^verbatim>\<open>setConfig\<close>
  (571--575).
\<close>

definition setError :: "'e GAuth_TCP_Client \<Rightarrow> int_t \<Rightarrow> int_t \<times> 'e GAuth_TCP_Client" where
  "setError s code =
     (case response_code s of
        None \<Rightarrow> (- 1000, s)
      | Some a \<Rightarrow> (let s1 = s\<lparr>ints := (ints s)(a := code)\<rparr> in (ints s1 a, s1)))"

definition begin_host :: "'e GAuth_TCP_Client \<Rightarrow> string \<Rightarrow> uint16_t \<Rightarrow> addr option \<Rightarrow> bool \<times> 'e GAuth_TCP_Client" where
  "begin_host s h pt rc = (True, s\<lparr>host := h, port := pt, response_code := rc\<rparr>)"

definition getCertType :: "'e GAuth_TCP_Client \<Rightarrow> esp_signer_cert_type" where
  "getCertType s = certType s"

definition setClockStatus :: "'e GAuth_TCP_Client \<Rightarrow> bool \<Rightarrow> 'e GAuth_TCP_Client" where
  "setClockStatus s status = s\<lparr>clockReady := status\<rparr>"

definition setNetworkStatus :: "'e GAuth_TCP_Client \<Rightarrow> bool \<Rightarrow> 'e GAuth_TCP_Client" where
  "setNetworkStatus s status = s\<lparr>esp_signer_networkStatus := status\<rparr>"

definition setConfig :: "'e GAuth_TCP_Client \<Rightarrow> SPI_ETH_Module option \<Rightarrow> addr option \<Rightarrow> 'e GAuth_TCP_Client" where
  "setConfig s cfg fs = s\<lparr>config := cfg, mbfs := fs\<rparr>"

text \<open>\<^verbatim>\<open>setClient\<close> (lines 583--590), a member in the external-client build only.\<close>

definition setClient :: "'e GAuth_TCP_Client \<Rightarrow> addr option \<Rightarrow> addr option \<Rightarrow> addr option \<Rightarrow> 'e GAuth_TCP_Client" where
  "setClient s c networkConnectionCB networkStatusCB =
     s\<lparr>client := c,
       esp_signer_network_connection_cb := networkConnectionCB,
       esp_signer_network_status_cb := networkStatusCB\<rparr>"

text \<open>
  \<^verbatim>\<open>connected\<close> (lines 300--305) with \<^verbatim>\<open>operator bool\<close> (295--298), \<^verbatim>\<open>stop\<close> (412--418),
  \<^verbatim>\<open>peek\<close> (506--511) and \<^verbatim>\<open>available\<close> (493--499).
\<close>

definition connected :: "'e ops \<Rightarrow> 'e GAuth_TCP_Client \<Rightarrow> uint8_t \<times> 'e GAuth_TCP_Client" where
  "connected ops s =
     (case client s of
        None \<Rightarrow> (0, s)
      | Some p \<Rightarrow> (case Client_connected ops p (env s) of (c, e) \<Rightarrow> (c, s\<lparr>env := e\<rparr>)))"

definition operator_bool :: "'e ops \<Rightarrow> 'e GAuth_TCP_Client \<Rightarrow> bool \<times> 'e GAuth_TCP_Client" where
  "operator_bool ops s = (case connected ops s of (c, s1) \<Rightarrow> (c \<noteq> 0, s1))"

definition stop :: "'e ops \<Rightarrow> 'e GAuth_TCP_Client \<Rightarrow> 'e GAuth_TCP_Client" where
  "stop ops s =
     (case client s of
        None \<Rightarrow> s
      | Some p \<Rightarrow> s\<lparr>env := Client_stop ops p (env s)\<rparr>)"

definition peek :: "'e ops \<Rightarrow> 'e GAuth_TCP_Client \<Rightarrow> int_t \<times> 'e GAuth_TCP_Client" where
  "peek ops s =
     (case client s of
        None \<Rightarrow> (0, s)
      | Some p \<Rightarrow> (case Client_peek ops p (env s) of (r, e) \<Rightarrow> (r, s\<lparr>env := e\<rparr>)))"

definition available :: "codes \<Rightarrow> 'e ops \<Rightarrow> 'e GAuth_TCP_Client \<Rightarrow> int_t \<times> 'e GAuth_TCP_Client" where
  "available K ops s =
     (case client s of
        None \<Rightarrow> setError s (TCP_ERROR_CONNECTION_REFUSED K)
      | Some p \<Rightarrow> (case Client_available ops p (env s) of (r, e) \<Rightarrow> (r, s\<lparr>env := e\<rparr>)))"

text \<open>\<^verbatim>\<open>int read()\<close> (lines 513--525).\<close>

definition read :: "codes \<Rightarrow> 'e ops \<Rightarrow> 'e GAuth_TCP_Client \<Rightarrow> int_t \<times> 'e GAuth_TCP_Client" where
  "read K ops s =
     (case client s of
        None \<Rightarrow> setError s (TCP_ERROR_CONNECTION_REFUSED K)
      | Some p \<Rightarrow>
          (case Client_read ops p (env s) of (r, e) \<Rightarrow>
             if r <s 0 then setError (s\<lparr>env := e\<rparr>) (TCP_RESPONSE_READ_FAILED K)
             else (r, s\<lparr>env := e\<rparr>)))"

text \<open>
  \<^verbatim>\<open>int readBytes(uint8_t *buf, int len)\<close> (lines 527--540). The second component of
  the result is what the call stored into \<open>buf\<close>: nothing when the underlying client was
  not reached.
\<close>

definition readBytes :: "codes \<Rightarrow> 'e ops \<Rightarrow> 'e GAuth_TCP_Client \<Rightarrow> int_t \<Rightarrow> (int_t \<times> uint8_t list) \<times> 'e GAuth_TCP_Client" where
  "readBytes K ops s len =
     (case client s of
        None \<Rightarrow> (case setError s (TCP_ERROR_CONNECTION_REFUSED K) of (r, s1) \<Rightarrow> ((r, []), s1))
      | Some p \<Rightarrow>
          (case Client_readBytes ops p len (env s) of ((r, bs), e) \<Rightarrow>
             if r \<noteq> len then
               (case setError (s\<lparr>env := e\<rparr>) (TCP_RESPONSE_READ_FAILED K) of (r1, s1) \<Rightarrow> ((r1, bs), s1))
             else ((r, bs), snd (setError (s\<lparr>env := e\<rparr>) (HTTP_CODE_OK K)))))"

text \<open>
  \<^verbatim>\<open>int readBytes(char *buf, int len)\<close> (line 542): the cast leaves the bytes as they
  are.
\<close>

definition readBytes_char :: "codes \<Rightarrow> 'e ops \<Rightarrow> 'e GAuth_TCP_Client \<Rightarrow> int_t \<Rightarrow> (int_t \<times> uint8_t list) \<times> 'e GAuth_TCP_Client" where
  "readBytes_char K ops s len = readBytes K ops s len"

text \<open>\<^verbatim>\<open>int read(uint8_t *buf, size_t size)\<close> (lines 501--504).\<close>

definition read_buf :: "codes \<Rightarrow> 'e ops \<Rightarrow> 'e GAuth_TCP_Client \<Rightarrow> size_t \<Rightarrow> (int_t \<times> uint8_t list) \<times> 'e GAuth_TCP_Client" where
  "read_buf K ops s n = readBytes K ops s n"

text \<open>
  \<^verbatim>\<open>release\<close> (lines 385--401), which the destructor calls. It leaves \<open>client\<close> null.
\<close>

definition release :: "build \<Rightarrow> 'e ops \<Rightarrow> 'e GAuth_TCP_Client \<Rightarrow> 'e GAuth_TCP_Client" where
  "release B ops s =
     (if ESP_SIGNER_ENABLE_EXTERNAL_CLIENT B then s
      else
        case client s of
          None \<Rightarrow> s
        | Some p \<Rightarrow>
            (let s1 = s\<lparr>env := Client_delete ops p (Client_stop ops p (env s)),
                         client := None, host := []\<rparr>;
                 s2 = (case cert s1 of
                         None \<Rightarrow> s1
                       | Some buf \<Rightarrow>
                           (case MemoryHelper_freeBuffer ops (mbfs s1) buf (env s1) of
                              (c, e) \<Rightarrow> s1\<lparr>cert := c, env := e\<rparr>))
             in s2\<lparr>certType := esp_signer_cert_type_undefined\<rparr>))"

subsection \<open>Connecting\<close>

text \<open>
  The loop of \<^verbatim>\<open>flush\<close> (lines 544--551):
  \<^verbatim>\<open>while (client->available() > 0) client->read();\<close>.
  Nothing in the header bounds it, so not returning is the value \<open>None\<close>.
\<close>

partial_function (option) flush_loop :: "'e ops \<Rightarrow> addr \<Rightarrow> 'e \<Rightarrow> 'e option" where
  "flush_loop ops p e =
     (let a = Client_available ops p e in
      if 0 <s fst a then flush_loop ops p (snd (Client_read ops p (snd a)))
      else Some (snd a))"

declare flush_loop.simps [code]

definition flush :: "'e ops \<Rightarrow> 'e GAuth_TCP_Client \<Rightarrow> 'e GAuth_TCP_Client outcome" where
  "flush ops s =
     (case client s of
        None \<Rightarrow> Returns s
      | Some p \<Rightarrow>
          (case flush_loop ops p (env s) of
             None \<Rightarrow> Diverges
           | Some e \<Rightarrow> Returns (s\<lparr>env := e\<rparr>)))"

text \<open>
  \<^verbatim>\<open>bool connect()\<close> (lines 307--321). The \<^verbatim>\<open>int\<close> that \<^verbatim>\<open>setError\<close> returns is converted to
  \<^verbatim>\<open>bool\<close> by the \<^verbatim>\<open>return\<close>: it is true when the \<^verbatim>\<open>int\<close> is not zero.
\<close>

definition connect :: "codes \<Rightarrow> 'e ops \<Rightarrow> 'e GAuth_TCP_Client \<Rightarrow> (bool \<times> 'e GAuth_TCP_Client) outcome" where
  "connect K ops s =
     (case connected ops s of (c, s1) \<Rightarrow>
        if c \<noteq> 0 then bind_outcome (flush ops s1) (\<lambda>s2. Returns (True, s2))
        else
          with_client s1 (\<lambda>p.
            case (if host s1 \<noteq> [] then Client_connect_host ops p (host s1) (port s1) (env s1)
                  else Client_connect_ip ops p (ip s1) (port s1) (env s1)) of
              (ret, e2) \<Rightarrow>
                let s2 = s1\<lparr>env := e2\<rparr> in
                if ret = 0 then
                  (case setError s2 (TCP_ERROR_CONNECTION_REFUSED K) of (r, s3) \<Rightarrow> Returns (r \<noteq> 0, s3))
                else
                  (let s3 = s2\<lparr>env := snd (Client_setTimeout ops p (timeoutmSec s2) (env s2))\<rparr> in
                   case connected ops s3 of (c', s4) \<Rightarrow> Returns (c' \<noteq> 0, s4))))"

text \<open>
  \<^verbatim>\<open>int connect(IPAddress ip, uint16_t port)\<close> and
  \<^verbatim>\<open>int connect(const char *host, uint16_t port)\<close> (lines 553--564).
\<close>

definition connect_ip :: "codes \<Rightarrow> 'e ops \<Rightarrow> 'e GAuth_TCP_Client \<Rightarrow> uint32_t \<Rightarrow> uint16_t \<Rightarrow> (int_t \<times> 'e GAuth_TCP_Client) outcome" where
  "connect_ip K ops s a pt =
     bind_outcome (connect K ops (s\<lparr>ip := a, port := pt\<rparr>))
       (\<lambda>(b, s1). Returns (if b then 1 else 0, s1))"

definition connect_host :: "codes \<Rightarrow> 'e ops \<Rightarrow> 'e GAuth_TCP_Client \<Rightarrow> string \<Rightarrow> uint16_t \<Rightarrow> (int_t \<times> 'e GAuth_TCP_Client) outcome" where
  "connect_host K ops s h pt =
     bind_outcome (connect K ops (s\<lparr>host := h, port := pt\<rparr>))
       (\<lambda>(b, s1). Returns (if b then 1 else 0, s1))"

subsection \<open>Network status\<close>

text \<open>
  \<^verbatim>\<open>ethLinkUp\<close> (lines 323--383) and \<^verbatim>\<open>networkReady\<close> (240--251). The call
  \<^verbatim>\<open>delayMicroseconds(0)\<close> has no effect on the state modelled.
\<close>

definition ethLinkUp :: "build \<Rightarrow> 'e ops \<Rightarrow> 'e GAuth_TCP_Client \<Rightarrow> bool \<times> 'e GAuth_TCP_Client" where
  "ethLinkUp B ops s =
     (if ESP_SIGNER_ENABLE_EXTERNAL_CLIENT B then (False, s)
      else if target B = ESP32 then
        (case ETH_localIP ops (env s) of (a, e1) \<Rightarrow>
           if a \<noteq> ''0.0.0.0'' then (True, s\<lparr>env := snd (ETH_linkUp ops e1)\<rparr>)
           else (False, s\<lparr>env := e1\<rparr>))
      else if BearSSL B then
        (let s1 = (if eth s = None \<and> config s \<noteq> None then s\<lparr>eth := config s\<rparr> else s) in
         case eth s1 of
           None \<Rightarrow> (False, s1)
         | Some m \<Rightarrow>
             if target B = ESP8266 \<and> ESP8266_CORE_SDK_V3_X_X B then
               (case (if INC_ENC28J60_LWIP B then enc28j60 m else None) of
                  Some d \<Rightarrow> (case Eth_connected ops d (env s1) of (r, e) \<Rightarrow> (r, s1\<lparr>env := e\<rparr>))
                | None \<Rightarrow>
               (case (if INC_W5100_LWIP B then w5100 m else None) of
                  Some d \<Rightarrow> (case Eth_connected ops d (env s1) of (r, e) \<Rightarrow> (r, s1\<lparr>env := e\<rparr>))
                | None \<Rightarrow>
               (case (if INC_W5500_LWIP B then w5500 m else None) of
                  Some d \<Rightarrow> (case Eth_connected ops d (env s1) of (r, e) \<Rightarrow> (r, s1\<lparr>env := e\<rparr>))
                | None \<Rightarrow> (False, s1))))
             else (False, s1))
      else (False, s))"

definition networkReady :: "build \<Rightarrow> 'e ops \<Rightarrow> 'e GAuth_TCP_Client \<Rightarrow> bool \<times> 'e GAuth_TCP_Client" where
  "networkReady B ops s =
     (if ESP_SIGNER_ENABLE_EXTERNAL_CLIENT B then
        (let s1 = (case esp_signer_network_status_cb s of None \<Rightarrow> s | Some f \<Rightarrow> status_cb ops f s)
         in (esp_signer_networkStatus s1, s1))
      else
        (case WiFi_connected ops (env s) of (w, e1) \<Rightarrow>
           if w then (True, s\<lparr>env := e1\<rparr>) else ethLinkUp B ops (s\<lparr>env := e1\<rparr>)))"

subsection \<open>Sending\<close>

text \<open>
  \<^verbatim>\<open>size_t write(const uint8_t *data, size_t size)\<close> (lines 420--443). \<open>data\<close> is \<open>None\<close> for a null
  pointer and otherwise the bytes of the buffer.
\<close>

definition write_buf :: "codes \<Rightarrow> build \<Rightarrow> 'e ops \<Rightarrow> 'e GAuth_TCP_Client \<Rightarrow> uint8_t list option \<Rightarrow> size_t \<Rightarrow> (size_t \<times> 'e GAuth_TCP_Client) outcome" where
  "write_buf K B ops s data n =
     (case data of
        None \<Rightarrow> Returns (setError s (TCP_ERROR_SEND_REQUEST_FAILED K))
      | Some d \<Rightarrow>
     if client s = None then Returns (setError s (TCP_ERROR_SEND_REQUEST_FAILED K))
     else if n = 0 then Returns (setError s (TCP_ERROR_SEND_REQUEST_FAILED K))
     else
       case networkReady B ops s of (ready, s1) \<Rightarrow>
         if \<not> ready then Returns (setError s1 (TCP_ERROR_NOT_CONNECTED K))
         else
           with_client s1 (\<lambda>p.
             case Client_connected ops p (env s1) of (c, e2) \<Rightarrow>
               bind_outcome
                 (if c = 0 then connect K ops (s1\<lparr>env := e2\<rparr>) else Returns (True, s1\<lparr>env := e2\<rparr>))
                 (\<lambda>(ok, s3).
                    if \<not> ok then Returns (setError s3 (TCP_ERROR_CONNECTION_REFUSED K))
                    else
                      with_client s3 (\<lambda>q.
                        case Client_write ops q d n (env s3) of (res, e4) \<Rightarrow>
                          if res \<noteq> n then
                            Returns (setError (s3\<lparr>env := e4\<rparr>) (TCP_ERROR_SEND_REQUEST_FAILED K))
                          else
                            Returns (n, snd (setError (s3\<lparr>env := e4\<rparr>) (HTTP_CODE_OK K)))))))"

text \<open>\<^verbatim>\<open>size_t write(uint8_t v)\<close> (lines 445--450).\<close>

definition write_byte :: "codes \<Rightarrow> build \<Rightarrow> 'e ops \<Rightarrow> 'e GAuth_TCP_Client \<Rightarrow> uint8_t \<Rightarrow> (size_t \<times> 'e GAuth_TCP_Client) outcome" where
  "write_byte K B ops s v = (let buf = [v] in write_buf K B ops s (Some buf) 1)"

text \<open>
  \<^verbatim>\<open>int send(const char *data, int len = 0)\<close> (lines 452--457). \<open>data\<close> holds the characters of the
  string before its terminator; \<^verbatim>\<open>strlen\<close> of a null pointer is a null dereference.
\<close>

definition strlen :: "uint8_t list \<Rightarrow> size_t" where
  "strlen d = word_of_nat (length d)"

definition send :: "codes \<Rightarrow> build \<Rightarrow> 'e ops \<Rightarrow> 'e GAuth_TCP_Client \<Rightarrow> uint8_t list option \<Rightarrow> int_t \<Rightarrow> (int_t \<times> 'e GAuth_TCP_Client) outcome" where
  "send K B ops s data len =
     bind_outcome
       (if len = 0 then (case data of None \<Rightarrow> Null_Deref | Some d \<Rightarrow> Returns (strlen d))
        else Returns len)
       (\<lambda>len1. write_buf K B ops s data len1)"

text \<open>\<^verbatim>\<open>int print(const char *data)\<close> (lines 459--462).\<close>

definition print :: "codes \<Rightarrow> build \<Rightarrow> 'e ops \<Rightarrow> 'e GAuth_TCP_Client \<Rightarrow> uint8_t list option \<Rightarrow> (int_t \<times> 'e GAuth_TCP_Client) outcome" where
  "print K B ops s data = send K B ops s data 0"

subsection \<open>Timeout and trust configuration\<close>

text \<open>
  \<^verbatim>\<open>setTimeout\<close> (lines 274--285), \<^verbatim>\<open>setInsecure\<close> (174--188), \<^verbatim>\<open>setCACert\<close> (69--100)
  and \<^verbatim>\<open>setCertFile\<close> (102--172).
\<close>

definition setTimeout :: "build \<Rightarrow> 'e ops \<Rightarrow> 'e GAuth_TCP_Client \<Rightarrow> uint32_t \<Rightarrow> (int_t \<times> 'e GAuth_TCP_Client) outcome" where
  "setTimeout B ops s t =
     (let s1 = s\<lparr>timeoutmSec := t\<rparr> in
      if \<not> ESP_SIGNER_ENABLE_EXTERNAL_CLIENT B \<and> target B = ESP32 then
        with_client s1 (\<lambda>p.
          case Client_setTimeout ops p (t div 1000) (env s1) of (r, e) \<Rightarrow> Returns (r, s1\<lparr>env := e\<rparr>))
      else if \<not> ESP_SIGNER_ENABLE_EXTERNAL_CLIENT B \<and> BearSSL B then
        with_client s1 (\<lambda>p.
          Returns (1, s1\<lparr>env := snd (Client_setTimeout ops p t (env s1))\<rparr>))
      else Returns (1, s1))"

definition setInsecure :: "build \<Rightarrow> 'e ops \<Rightarrow> 'e GAuth_TCP_Client \<Rightarrow> 'e GAuth_TCP_Client outcome" where
  "setInsecure B ops s =
     (if ESP_SIGNER_ENABLE_EXTERNAL_CLIENT B then Returns s
      else if target B = ESP32 then
        (if ESP_IDF_3_3_0 B then
           with_client s (\<lambda>p. Returns (s\<lparr>env := Client_setInsecure ops p (env s)\<rparr>))
         else Returns s)
      else if BearSSL B then
        with_client s (\<lambda>p. Returns (s\<lparr>env := Client_setInsecure ops p (env s)\<rparr>))
      else Returns s)"

text \<open>
  \<^verbatim>\<open>client->setBufferSizes(bsslRxSize, bsslTxSize)\<close>, the first statement of
  \<^verbatim>\<open>setCACert\<close> and of \<^verbatim>\<open>setCertFile\<close> on ESP8266 and RP2040.
\<close>

definition apply_buffer_sizes :: "build \<Rightarrow> 'e ops \<Rightarrow> 'e GAuth_TCP_Client \<Rightarrow> 'e GAuth_TCP_Client outcome" where
  "apply_buffer_sizes B ops s =
     (if BearSSL B then
        with_client s (\<lambda>p.
          Returns (s\<lparr>env := Client_setBufferSizes ops p (bsslRxSize s) (bsslTxSize s) (env s)\<rparr>))
      else Returns s)"

definition setCACert :: "build \<Rightarrow> 'e ops \<Rightarrow> 'e GAuth_TCP_Client \<Rightarrow> uint8_t list option \<Rightarrow> 'e GAuth_TCP_Client outcome" where
  "setCACert B ops s caCert =
     (if ESP_SIGNER_ENABLE_EXTERNAL_CLIENT B then Returns s
      else
        bind_outcome (apply_buffer_sizes B ops s) (\<lambda>s1.
          case caCert of
            Some pem \<Rightarrow>
              (let s2 = s1\<lparr>certType := esp_signer_cert_type_data\<rparr> in
               if target B = ESP32 then
                 with_client s2 (\<lambda>p. Returns (s2\<lparr>env := Client_setCACert ops p (Some pem) (env s2)\<rparr>))
               else if BearSSL B then
                 (let s3 = s2\<lparr>x509 := Some pem\<rparr> in
                  with_client s3 (\<lambda>p. Returns (s3\<lparr>env := Client_setTrustAnchors ops p pem (env s3)\<rparr>)))
               else Returns s2)
          | None \<Rightarrow>
              (let s2 = s1\<lparr>certType := esp_signer_cert_type_none\<rparr> in
               with_client s2 (\<lambda>p.
                 let s3 = s2\<lparr>env := Client_stop ops p (env s2)\<rparr>;
                     s4 = (if target B = ESP32 then s3\<lparr>env := Client_setCACert ops p None (env s3)\<rparr>
                           else if BearSSL B then s3\<lparr>env := Client_setNoDelay ops p True (env s3)\<rparr>
                           else s3)
                 in setInsecure B ops s4))))"

text \<open>
  The body of \<^verbatim>\<open>setCertFile\<close> after a successful \<^verbatim>\<open>mbfs->open\<close> that returned
  \<open>len\<close>, for ESP32 (lines 123--155) and for ESP8266 and RP2040 (lines 157--165).
  \<open>fs\<close> is the address \<open>mbfs\<close> holds. On ESP32 with SdFat the old \<open>cert\<close> buffer is
  freed first (lines 139--140); on ESP8266 and RP2040 the local buffer \<open>der\<close> is freed
  after \<^verbatim>\<open>setTrustAnchors\<close> (line 163), and what its pointer holds afterwards is
  dropped with it.
\<close>

definition install_ESP32 :: "build \<Rightarrow> 'e ops \<Rightarrow> 'e GAuth_TCP_Client \<Rightarrow> addr \<Rightarrow> mb_fs_mem_storage_type \<Rightarrow> int_t \<Rightarrow> 'e GAuth_TCP_Client outcome" where
  "install_ESP32 B ops s fs storageType len =
     (if storageType = mb_fs_mem_storage_type_flash then
        bind_outcome
          (if MBFS_FLASH_FS B then
             with_client s (\<lambda>p.
               Returns (s\<lparr>env := Client_loadCACert ops p fs storageType len (env s),
                          certType := esp_signer_cert_type_file\<rparr>))
           else Returns s)
          (\<lambda>s1. Returns (s1\<lparr>env := MB_FS_close ops fs storageType (env s1)\<rparr>))
      else if storageType = mb_fs_mem_storage_type_sd then
        bind_outcome
          (if MBFS_ESP32_SDFAT_ENABLED B then
             (let s0 = (case cert s of
                          None \<Rightarrow> s
                        | Some old \<Rightarrow>
                            (case MemoryHelper_freeBuffer ops (mbfs s) old (env s) of
                               (c, e0) \<Rightarrow> s\<lparr>cert := c, env := e0\<rparr>)) in
              case MemoryHelper_createBuffer ops fs len (env s0) of (buf, e1) \<Rightarrow>
              case MB_FS_available ops fs storageType e1 of (a, e2) \<Rightarrow>
              case (if a \<noteq> 0 then MB_FS_read ops fs storageType buf len e2 else (buf, e2)) of (buf1, e3) \<Rightarrow>
                let s1 = s0\<lparr>cert := Some buf1, env := e3\<rparr> in
                with_client s1 (\<lambda>p.
                  Returns (s1\<lparr>env := Client_setCACert ops p (Some buf1) (env s1),
                              certType := esp_signer_cert_type_file\<rparr>)))
           else if MBFS_SD_FS B then
             with_client s (\<lambda>p.
               Returns (s\<lparr>env := Client_loadCACert ops p fs storageType len (env s),
                          certType := esp_signer_cert_type_file\<rparr>))
           else Returns s)
          (\<lambda>s1. Returns (s1\<lparr>env := MB_FS_close ops fs storageType (env s1)\<rparr>))
      else Returns s)"

definition install_BearSSL :: "'e ops \<Rightarrow> 'e GAuth_TCP_Client \<Rightarrow> addr \<Rightarrow> mb_fs_mem_storage_type \<Rightarrow> int_t \<Rightarrow> 'e GAuth_TCP_Client outcome" where
  "install_BearSSL ops s fs storageType len =
     (case MemoryHelper_createBuffer ops fs len (env s) of (der, e1) \<Rightarrow>
      case MB_FS_available ops fs storageType e1 of (a, e2) \<Rightarrow>
      case (if a \<noteq> 0 then MB_FS_read ops fs storageType der len e2 else (der, e2)) of (der1, e3) \<Rightarrow>
        let s1 = s\<lparr>env := MB_FS_close ops fs storageType e3\<rparr> in
        with_client s1 (\<lambda>p.
          case MemoryHelper_freeBuffer ops (mbfs s1) der1
                 (Client_setTrustAnchors ops p der1 (env s1)) of
            (freed, e4) \<Rightarrow>
              Returns (s1\<lparr>env := e4, certType := esp_signer_cert_type_file\<rparr>)))"

text \<open>
  \<^verbatim>\<open>bool setCertFile(const char *caCertFile, mb_fs_mem_storage_type storageType)\<close>.
  \<^verbatim>\<open>&&\<close> evaluates \<^verbatim>\<open>strlen(caCertFile)\<close> only when \<open>clockReady\<close> holds.
\<close>

definition setCertFile :: "build \<Rightarrow> 'e ops \<Rightarrow> 'e GAuth_TCP_Client \<Rightarrow> string option \<Rightarrow> mb_fs_mem_storage_type \<Rightarrow> (bool \<times> 'e GAuth_TCP_Client) outcome" where
  "setCertFile B ops s caCertFile storageType =
     bind_outcome
       (if ESP_SIGNER_ENABLE_EXTERNAL_CLIENT B then Returns s
        else
          bind_outcome (apply_buffer_sizes B ops s) (\<lambda>s1.
            if clockReady s1 then
              (case caCertFile of
                 None \<Rightarrow> Null_Deref
               | Some name \<Rightarrow>
                   if name \<noteq> [] then
                     (let filename = (if hd name \<noteq> CHR ''/'' then CHR ''/'' # name else name) in
                      with_mbfs s1 (\<lambda>fs.
                        case MB_FS_open ops fs filename storageType (env s1) of (len, e2) \<Rightarrow>
                          let s2 = s1\<lparr>env := e2\<rparr> in
                          if - 1 <s len then
                            (if target B = ESP32 then install_ESP32 B ops s2 fs storageType len
                             else if BearSSL B then install_BearSSL ops s2 fs storageType len
                             else Returns s2)
                          else Returns s2))
                   else Returns s1)
            else Returns s1))
       (\<lambda>s'. Returns (certType s' = esp_signer_cert_type_file, s'))"

section \<open>The signer (ESP\_Signer.h)\<close>

text \<open>
  Of \<^verbatim>\<open>class ESP_Signer\<close> the sources hold the declaration only (members at lines
  838--849). The record has its data members of a plain type; \<^verbatim>\<open>unsigned long\<close> is a
  32-bit word.
\<close>

record ESP_Signer =
  authenticated :: bool
  token_processing_task_enable :: bool
  token_processing_task_end_request :: bool
  unauthen_millis :: uint32_t
  unauthen_pause_duration :: uint32_t

text \<open>
  Modelled from the spec: the signer as constructed. The constructor
  \<^verbatim>\<open>ESP_Signer::ESP_Signer()\<close> is defined in \<^verbatim>\<open>ESP_Signer.cpp\<close>, which is not among the
  sources. The spec (4.6) gives the ``default base \<open>~3s\<close>'' and (3) a token ``created empty
  at startup'' with no failure recorded, which are the values of the member initialisers
  at lines 844--849: the constructed signer has those values.
\<close>

definition ESP_Signer_new :: ESP_Signer where
  "ESP_Signer_new =
     \<lparr> authenticated = False,
       token_processing_task_enable = False,
       token_processing_task_end_request = False,
       unauthen_millis = 0,
       unauthen_pause_duration = 3000 \<rparr>"

text \<open>
  Modelled from the spec: the length of the pause after \<open>n\<close> failed attempts in a row.
  The members of \<^verbatim>\<open>ESP_Signer\<close> that read \<open>unauthen_pause_duration\<close> and
  \<open>unauthen_millis\<close> are defined in \<^verbatim>\<open>ESP_Signer.cpp\<close>, which is not among the sources.
  The spec (4.6, backoff policy): ``failure count \<open>n\<close> maps to pause duration
  \<open>min(maxPause, basePause * n)\<close> (linear backoff with a ceiling, default base \<open>~3s\<close>,
  ceiling in the tens of seconds)''. The base is \<open>unauthen_pause_duration\<close>; the spec
  gives no value for the ceiling and the declaration has no member for it or for the
  count, so both are arguments. Times are in milliseconds.
\<close>

definition pause_duration :: "ESP_Signer \<Rightarrow> nat \<Rightarrow> nat \<Rightarrow> nat" where
  "pause_duration g maxPause n = min maxPause (unat (unauthen_pause_duration g) * n)"

text \<open>
  Modelled from the spec: what a failed attempt leaves in the signer. The spec (4.6,
  \<open>tick\<close>): ``on failure transitions to \<open>Error\<close>, increments the backoff counter, records
  failure time''; (3) the counter ``tracks consecutive failed exchange attempts and the
  timestamp of the last failure''. The timestamp is \<open>unauthen_millis\<close>.
\<close>

definition attempt_failed :: "ESP_Signer \<Rightarrow> uint32_t \<Rightarrow> ESP_Signer" where
  "attempt_failed g now = g\<lparr>unauthen_millis := now\<rparr>"

text \<open>
  Modelled from the spec: whether the signer is pausing at the time \<open>now\<close>. The spec
  (4.6, backoff policy): the pause duration is that ``during which \<open>tick\<close> will not
  re-attempt exchange even if otherwise due''. The pause runs from the last failure.
\<close>

definition pausing :: "ESP_Signer \<Rightarrow> nat \<Rightarrow> nat \<Rightarrow> uint32_t \<Rightarrow> bool" where
  "pausing g maxPause n now =
     (unat now < unat (unauthen_millis g) + pause_duration g maxPause n)"

section \<open>A platform to run the code on\<close>

text \<open>
  A small platform on which the definitions above can be evaluated: one socket with a
  queue of pending input, a bound on what a connected socket accepts in one write, one
  file, a WiFi link, and a count of the buffers \<^verbatim>\<open>MemoryHelper::freeBuffer\<close> has freed.
  A dial succeeds when the peer is \<open>reachable\<close>, and the socket is connected
  afterwards when the peer \<open>keeps\<close> the connection.
  The macros' values are not in the sources; \<open>sample_codes\<close> are values to evaluate
  with, pairwise distinct and none of them \<open>- 1000\<close>.
\<close>

record sim =
  link :: bool
  reachable :: bool
  keeps :: bool
  pending :: "uint8_t list"
  room :: nat
  sent :: "uint8_t list"
  timeout_set :: "uint32_t option"
  ca :: "uint8_t list option"
  insecure :: bool
  wifi_up :: bool
  stored :: "uint8_t list option"
  is_open :: bool
  freed :: nat

definition sim_ops :: "sim ops" where
  "sim_ops =
     \<lparr> Client_connected = (\<lambda>p e. (if link e then 1 else 0, e)),
       Client_connect_host = (\<lambda>p h pt e. if reachable e then (1, e\<lparr>link := keeps e\<rparr>) else (0, e)),
       Client_connect_ip = (\<lambda>p a pt e. if reachable e then (1, e\<lparr>link := keeps e\<rparr>) else (0, e)),
       Client_setTimeout = (\<lambda>p t e. (0, e\<lparr>timeout_set := Some t\<rparr>)),
       Client_stop = (\<lambda>p e. e\<lparr>link := False, pending := []\<rparr>),
       Client_write = (\<lambda>p d n e.
          let k = (if link e then min (unat n) (room e) else 0)
          in (word_of_nat k, e\<lparr>sent := sent e @ take k d\<rparr>)),
       Client_available = (\<lambda>p e. (word_of_nat (length (pending e)), e)),
       Client_read = (\<lambda>p e.
          case pending e of [] \<Rightarrow> (- 1, e) | b # bs \<Rightarrow> (ucast b, e\<lparr>pending := bs\<rparr>)),
       Client_peek = (\<lambda>p e. case pending e of [] \<Rightarrow> (- 1, e) | b # bs \<Rightarrow> (ucast b, e)),
       Client_readBytes = (\<lambda>p n e.
          let k = min (unat n) (length (pending e))
          in ((word_of_nat k, take k (pending e)), e\<lparr>pending := drop k (pending e)\<rparr>)),
       Client_setCACert = (\<lambda>p c e. e\<lparr>ca := c\<rparr>),
       Client_setInsecure = (\<lambda>p e. e\<lparr>insecure := True\<rparr>),
       Client_setTrustAnchors = (\<lambda>p c e. e\<lparr>ca := Some c\<rparr>),
       Client_setBufferSizes = (\<lambda>p rx tx e. e),
       Client_setNoDelay = (\<lambda>p b e. e),
       Client_loadCACert = (\<lambda>p m st n e. e\<lparr>ca := stored e\<rparr>),
       Client_delete = (\<lambda>p e. e\<lparr>link := False, pending := []\<rparr>),
       MB_FS_open = (\<lambda>p name st e.
          case stored e of
            None \<Rightarrow> (- 1, e)
          | Some bs \<Rightarrow> (word_of_nat (length bs), e\<lparr>is_open := True\<rparr>)),
       MB_FS_available = (\<lambda>p st e. (if is_open e then 1 else 0, e)),
       MB_FS_read = (\<lambda>p st buf n e.
          (case stored e of None \<Rightarrow> buf | Some bs \<Rightarrow> take (unat n) bs, e)),
       MB_FS_close = (\<lambda>p st e. e\<lparr>is_open := False\<rparr>),
       MemoryHelper_createBuffer = (\<lambda>p n e. (replicate (unat n) 0, e)),
       MemoryHelper_freeBuffer = (\<lambda>m buf e. (None, e\<lparr>freed := Suc (freed e)\<rparr>)),
       WiFi_connected = (\<lambda>e. (wifi_up e, e)),
       ETH_localIP = (\<lambda>e. (''0.0.0.0'', e)),
       ETH_linkUp = (\<lambda>e. (False, e)),
       Eth_connected = (\<lambda>p e. (False, e)),
       status_cb = (\<lambda>f s. s\<lparr>esp_signer_networkStatus := wifi_up (env s)\<rparr>) \<rparr>"

definition sim_idle :: sim where
  "sim_idle =
     \<lparr> link = False, reachable = True, keeps = True, pending = [], room = 1024, sent = [],
       timeout_set = None, ca = None, insecure = False, wifi_up = True,
       stored = None, is_open = False, freed = 0 \<rparr>"

definition sample_codes :: codes where
  "sample_codes =
     \<lparr> TCP_ERROR_CONNECTION_REFUSED = - 1,
       TCP_ERROR_SEND_REQUEST_FAILED = - 2,
       TCP_ERROR_NOT_CONNECTED = - 3,
       TCP_RESPONSE_READ_FAILED = - 4,
       HTTP_CODE_OK = 200 \<rparr>"

text \<open>The builds: the three targets with the client the object owns, and a build with
  an external client.\<close>

definition build_of :: "target \<Rightarrow> bool \<Rightarrow> build" where
  "build_of tg ext =
     \<lparr> target = tg, ESP_SIGNER_ENABLE_EXTERNAL_CLIENT = ext, ESP_IDF_3_3_0 = True,
       MBFS_FLASH_FS = True, MBFS_ESP32_SDFAT_ENABLED = False, MBFS_SD_FS = True,
       ESP8266_CORE_SDK_V3_X_X = False, INC_ENC28J60_LWIP = False,
       INC_W5100_LWIP = False, INC_W5500_LWIP = False \<rparr>"

text \<open>
  A freshly constructed object on the platform, its client at address 1, and the same
  object after \<^verbatim>\<open>begin\<close> has registered the \<^verbatim>\<open>int\<close> at address 7.
\<close>

definition fresh :: "build \<Rightarrow> sim \<Rightarrow> sim GAuth_TCP_Client" where
  "fresh B e = GAuth_TCP_Client_new B 1 (\<lambda>a. 0) e"

definition begun :: "build \<Rightarrow> sim \<Rightarrow> sim GAuth_TCP_Client" where
  "begun B e = snd (begin_host (fresh B e) ''example.com'' 443 (Some 7))"

text \<open>
  The object of an external-client build after \<^verbatim>\<open>setClient\<close> has handed it the client at
  address 1 and two callbacks, and an object that \<^verbatim>\<open>setConfig\<close> has given the file
  system at address 2.
\<close>

definition attached :: "sim \<Rightarrow> sim GAuth_TCP_Client" where
  "attached e = setClient (fresh (build_of ESP32 True) e) (Some 1) (Some 2) (Some 3)"

definition with_fs :: "build \<Rightarrow> sim \<Rightarrow> sim GAuth_TCP_Client" where
  "with_fs B e = setConfig (fresh B e) None (Some 2)"

text \<open>
  The ESP32 build with SdFat, and the platform with a two-byte certificate file, before
  and after the file has been installed as the client's certificate.
\<close>

definition sdfat_build :: build where
  "sdfat_build = (build_of ESP32 False)\<lparr>MBFS_ESP32_SDFAT_ENABLED := True\<rparr>"

definition sim_file :: sim where
  "sim_file = sim_idle\<lparr>stored := Some [48, 130]\<rparr>"

definition sim_installed :: sim where
  "sim_installed = sim_idle\<lparr>stored := Some [48, 130], ca := Some [48, 130]\<rparr>"

section \<open>Properties\<close>

subsection \<open>Shared facts\<close>

lemmas sim_defs =
  sim_ops_def fresh_def begun_def attached_def with_fs_def GAuth_TCP_Client_new_def
  begin_host_def setClient_def setConfig_def build_of_def sample_codes_def sim_idle_def
  sdfat_build_def sim_file_def sim_installed_def

lemma setError_unregistered:
  "response_code s = None \<Longrightarrow> setError s code = (- 1000, s)"
  by (simp add: setError_def)

lemma setError_registered:
  "response_code s = Some a \<Longrightarrow> setError s code = (code, s\<lparr>ints := (ints s)(a := code)\<rparr>)"
  by (simp add: setError_def Let_def)

lemma setError_env: "env (snd (setError s code)) = env s"
  by (simp add: setError_def Let_def split: option.splits)

lemma setError_client: "client (snd (setError s code)) = client s"
  by (simp add: setError_def Let_def split: option.splits)

lemma networkReady_client:
  "\<not> ESP_SIGNER_ENABLE_EXTERNAL_CLIENT B \<Longrightarrow> client (snd (networkReady B ops s)) = client s"
  by (simp add: networkReady_def ethLinkUp_def Let_def split: prod.splits option.splits)

lemma bind_outcome_Returns:
  "bind_outcome m f = Returns y \<longleftrightarrow> (\<exists>x. m = Returns x \<and> f x = Returns y)"
  by (cases m) simp_all

subsection \<open>Error reporting\<close>

text \<open>
  Claim C9. \<^verbatim>\<open>setError(code)\<close> returns \<open>- 1000\<close> and changes nothing when
  \<open>response_code\<close> is null, which is so after construction and after a \<^verbatim>\<open>begin\<close> that
  was given a null pointer; when \<^verbatim>\<open>begin\<close> has registered a pointer, \<^verbatim>\<open>setError\<close> stores
  the code in the cell it points to and returns the code. \<^verbatim>\<open>begin\<close> returns true and
  changes the three members \<open>host\<close>, \<open>port\<close> and \<open>response_code\<close>, nothing else: not the
  platform, so no network I/O.
\<close>

theorem setError_begin:
  "(response_code s = None \<longrightarrow> setError s code = (- 1000, s))
   \<and> (response_code s = Some a \<longrightarrow>
        setError s code = (code, s\<lparr>ints := (ints s)(a := code)\<rparr>))
   \<and> setError (GAuth_TCP_Client_new B p m e) code = (- 1000, GAuth_TCP_Client_new B p m e)
   \<and> setError (snd (begin_host s h pt None)) code
        = (- 1000, s\<lparr>host := h, port := pt, response_code := None\<rparr>)
   \<and> setError (snd (begin_host s h pt (Some a))) code
        = (code, s\<lparr>host := h, port := pt, response_code := Some a,
                    ints := (ints s)(a := code)\<rparr>)
   \<and> begin_host s h pt rc = (True, s\<lparr>host := h, port := pt, response_code := rc\<rparr>)
   \<and> env (snd (begin_host s h pt rc)) = env s"
  by (simp add: setError_def begin_host_def Let_def GAuth_TCP_Client_new_def)

theorem setError_begin_witness:
  "response_code (fresh (build_of ESP32 False) sim_idle) = None
   \<and> fst (setError (fresh (build_of ESP32 False) sim_idle) 200) = - 1000
   \<and> response_code (snd (begin_host (fresh (build_of ESP32 False) sim_idle) ''host'' 443 (Some 7))) = Some 7
   \<and> fst (setError (snd (begin_host (fresh (build_of ESP32 False) sim_idle) ''host'' 443 (Some 7))) 200) = 200
   \<and> ints (snd (setError (snd (begin_host (fresh (build_of ESP32 False) sim_idle) ''host'' 443 (Some 7))) 200)) 7 = 200"
  using setError_begin [of "fresh (build_of ESP32 False) sim_idle" 200 7 "build_of ESP32 False" 1 "\<lambda>a. 0" sim_idle "''host''" 443 "Some 7"]
    setError_begin [of "snd (begin_host (fresh (build_of ESP32 False) sim_idle) ''host'' 443 (Some 7))" 200 7]
  by (simp add: fresh_def GAuth_TCP_Client_new_def begin_host_def)

subsection \<open>A null client pointer\<close>

text \<open>
  Claim C8. With a null \<open>client\<close>, \<^verbatim>\<open>connected()\<close> and \<^verbatim>\<open>peek()\<close> return 0 (and
  \<^verbatim>\<open>operator bool\<close> false), \<^verbatim>\<open>stop()\<close>, \<^verbatim>\<open>flush()\<close> and \<^verbatim>\<open>release()\<close> return and
  change nothing, and \<^verbatim>\<open>available()\<close>, \<^verbatim>\<open>read()\<close>,
  \<^verbatim>\<open>read(buf, size)\<close> and \<^verbatim>\<open>readBytes(buf, len)\<close> return what
  \<^verbatim>\<open>setError(ESP_SIGNER_ERROR_TCP_ERROR_CONNECTION_REFUSED)\<close> returns, which is that code
  or \<open>- 1000\<close>; none of them reaches the platform.
\<close>

theorem null_client_total:
  assumes "client s = None"
  shows "connected ops s = (0, s)
    \<and> operator_bool ops s = (False, s)
    \<and> peek ops s = (0, s)
    \<and> stop ops s = s
    \<and> flush ops s = Returns s
    \<and> release B ops s = s
    \<and> available K ops s = setError s (TCP_ERROR_CONNECTION_REFUSED K)
    \<and> read K ops s = setError s (TCP_ERROR_CONNECTION_REFUSED K)
    \<and> readBytes K ops s len
        = ((fst (setError s (TCP_ERROR_CONNECTION_REFUSED K)), []),
           snd (setError s (TCP_ERROR_CONNECTION_REFUSED K)))
    \<and> read_buf K ops s len = readBytes K ops s len
    \<and> fst (setError s (TCP_ERROR_CONNECTION_REFUSED K)) \<in> {TCP_ERROR_CONNECTION_REFUSED K, - 1000}
    \<and> env (snd (setError s (TCP_ERROR_CONNECTION_REFUSED K))) = env s"
  using assms
  by (simp add: connected_def operator_bool_def peek_def stop_def flush_def release_def
      available_def read_def readBytes_def read_buf_def setError_def Let_def
      split: option.splits prod.splits)

theorem null_client_total_witness:
  "client (fresh (build_of ESP32 True) sim_idle) = None
   \<and> connected sim_ops (fresh (build_of ESP32 True) sim_idle) = (0, fresh (build_of ESP32 True) sim_idle)
   \<and> flush sim_ops (fresh (build_of ESP32 True) sim_idle) = Returns (fresh (build_of ESP32 True) sim_idle)
   \<and> available sample_codes sim_ops (fresh (build_of ESP32 True) sim_idle)
       = (- 1000, fresh (build_of ESP32 True) sim_idle)
   \<and> read sample_codes sim_ops (fresh (build_of ESP32 True) sim_idle)
       = (- 1000, fresh (build_of ESP32 True) sim_idle)
   \<and> readBytes sample_codes sim_ops (fresh (build_of ESP32 True) sim_idle) 4
       = ((- 1000, []), fresh (build_of ESP32 True) sim_idle)"
proof -
  have c: "client (fresh (build_of ESP32 True) sim_idle) = None"
    by (simp add: fresh_def GAuth_TCP_Client_new_def build_of_def)
  have r: "response_code (fresh (build_of ESP32 True) sim_idle) = None"
    by (simp add: fresh_def GAuth_TCP_Client_new_def)
  show ?thesis
    using c null_client_total [OF c, of sim_ops "build_of ESP32 True" sample_codes 4]
      setError_unregistered [OF r]
    by simp
qed

subsection \<open>The signer's pause\<close>

text \<open>
  Claim C7. The signer holds the base of the pause as \<open>unauthen_pause_duration\<close>,
  initialised to 3000, next to the time of the last failed attempt, \<open>unauthen_millis\<close>,
  initialised to 0; a failed attempt records its time and leaves the base as it is.
  With that default and a ceiling of at least 3000, the pause after one failed attempt is
  3000 milliseconds: the signer pauses exactly until 3000 milliseconds after the
  failure. The pause never exceeds the ceiling and does not shrink with more failures.
\<close>

theorem unauthen_pause_default:
  "unauthen_pause_duration ESP_Signer_new = 3000
   \<and> unauthen_millis ESP_Signer_new = 0
   \<and> unauthen_millis (attempt_failed g t) = t
   \<and> unauthen_pause_duration (attempt_failed g t) = unauthen_pause_duration g
   \<and> (3000 \<le> maxPause \<longrightarrow> pause_duration ESP_Signer_new maxPause 1 = 3000)
   \<and> (3000 \<le> maxPause \<longrightarrow>
        pausing (attempt_failed ESP_Signer_new t) maxPause 1 now = (unat now < unat t + 3000))
   \<and> pause_duration g maxPause n \<le> maxPause
   \<and> pause_duration g maxPause n \<le> pause_duration g maxPause (Suc n)"
  by (simp add: ESP_Signer_new_def attempt_failed_def pause_duration_def pausing_def)

text \<open>
  With a ceiling of 30 seconds and a first failure at 5000: the signer still pauses at
  7999 and no longer at 8000.
\<close>

theorem unauthen_pause_default_witness:
  "(3000 :: nat) \<le> 30000
   \<and> pause_duration ESP_Signer_new 30000 1 = 3000
   \<and> pausing (attempt_failed ESP_Signer_new 5000) 30000 1 7999
   \<and> \<not> pausing (attempt_failed ESP_Signer_new 5000) 30000 1 8000"
  using unauthen_pause_default [where maxPause = 30000 and t = 5000 and now = 7999]
    unauthen_pause_default [where maxPause = 30000 and t = 5000 and now = 8000]
  by simp

subsection \<open>Writing\<close>

lemmas step_defs =
  networkReady_def ethLinkUp_def connect_def connected_def with_client_def setError_def Let_def

lemmas run_defs = write_buf_def step_defs

text \<open>
  Claim C1, as amended. \<^verbatim>\<open>write(data, size)\<close> goes through five cases, and in each the
  error it reports is what \<^verbatim>\<open>setError\<close> returns for the code, which is the code when
  a response-code pointer is registered and \<open>- 1000\<close> when none is:
  \<^item> null \<open>data\<close>, null \<open>client\<close> or \<open>size = 0\<close>: \<^verbatim>\<open>setError\<close> of send-request-failed;
  \<^item> \<^verbatim>\<open>networkReady()\<close> false: \<^verbatim>\<open>setError\<close> of not-connected, and the platform is
    left as \<^verbatim>\<open>networkReady\<close> left it, so nothing is written;
  \<^item> the client reports not connected and \<^verbatim>\<open>connect()\<close> returns false: \<^verbatim>\<open>setError\<close>
    of connection-refused;
  \<^item> otherwise the underlying client writes, and a result other than \<open>size\<close> gives
    \<^verbatim>\<open>setError\<close> of send-request-failed;
  \<^item> a result equal to \<open>size\<close> gives \<open>size\<close>, after \<^verbatim>\<open>setError\<close> of HTTP-OK.
\<close>

theorem write_buf_cases:
  "(data = None \<or> client s = None \<or> n = 0 \<longrightarrow>
      write_buf K B ops s data n = Returns (setError s (TCP_ERROR_SEND_REQUEST_FAILED K)))
   \<and> (data = Some d \<and> client s \<noteq> None \<and> n \<noteq> 0 \<and> networkReady B ops s = (False, sr) \<longrightarrow>
      write_buf K B ops s data n = Returns (setError sr (TCP_ERROR_NOT_CONNECTED K))
      \<and> env (snd (setError sr (TCP_ERROR_NOT_CONNECTED K))) = env sr)
   \<and> (data = Some d \<and> client s \<noteq> None \<and> n \<noteq> 0 \<and> networkReady B ops s = (True, sr)
       \<and> client sr = Some p \<and> Client_connected ops p (env sr) = (0, ec)
       \<and> connect K ops (sr\<lparr>env := ec\<rparr>) = Returns (False, sf) \<longrightarrow>
      write_buf K B ops s data n = Returns (setError sf (TCP_ERROR_CONNECTION_REFUSED K)))
   \<and> (data = Some d \<and> client s \<noteq> None \<and> n \<noteq> 0 \<and> networkReady B ops s = (True, sr)
       \<and> client sr = Some p \<and> Client_connected ops p (env sr) = (c, ec)
       \<and> (if c = 0 then connect K ops (sr\<lparr>env := ec\<rparr>) = Returns (True, sw)
           else sw = sr\<lparr>env := ec\<rparr>)
       \<and> client sw = Some q \<and> Client_write ops q d n (env sw) = (res, ew) \<longrightarrow>
      write_buf K B ops s data n
        = (if res = n then Returns (n, snd (setError (sw\<lparr>env := ew\<rparr>) (HTTP_CODE_OK K)))
           else Returns (setError (sw\<lparr>env := ew\<rparr>) (TCP_ERROR_SEND_REQUEST_FAILED K))))
   \<and> (response_code s = None \<longrightarrow> setError s code = (- 1000, s))
   \<and> (response_code s = Some a \<longrightarrow> setError s code = (code, s\<lparr>ints := (ints s)(a := code)\<rparr>))"
  by (auto simp add: write_buf_def with_client_def setError_env setError_unregistered
      setError_registered split: option.splits)

text \<open>
  The five cases on the platform, with the pointer registered (the codes are
  \<open>- 2\<close>, \<open>- 3\<close>, \<open>- 1\<close>, \<open>- 2\<close> and 200), and a zero size without it.
\<close>

theorem write_buf_cases_witness:
  "write_buf sample_codes (build_of ESP32 False) sim_ops
     (begun (build_of ESP32 False) sim_idle) None 3
     = Returns (- 2, (begun (build_of ESP32 False) sim_idle)\<lparr>ints := (\<lambda>a. 0)(7 := - 2)\<rparr>)
   \<and> write_buf sample_codes (build_of ESP32 False) sim_ops
       (begun (build_of ESP32 False) (sim_idle\<lparr>wifi_up := False\<rparr>)) (Some [1, 2, 3]) 3
     = Returns (- 3, (begun (build_of ESP32 False) (sim_idle\<lparr>wifi_up := False\<rparr>))
                       \<lparr>ints := (\<lambda>a. 0)(7 := - 3)\<rparr>)
   \<and> write_buf sample_codes (build_of ESP32 False) sim_ops
       (begun (build_of ESP32 False) (sim_idle\<lparr>keeps := False\<rparr>)) (Some [1, 2, 3]) 3
     = Returns (- 1, (begun (build_of ESP32 False)
                        (sim_idle\<lparr>keeps := False, timeout_set := Some 10000\<rparr>))
                       \<lparr>ints := (\<lambda>a. 0)(7 := - 1)\<rparr>)
   \<and> write_buf sample_codes (build_of ESP32 False) sim_ops
       (begun (build_of ESP32 False) (sim_idle\<lparr>room := 2\<rparr>)) (Some [1, 2, 3]) 3
     = Returns (- 2, (begun (build_of ESP32 False)
                        (sim_idle\<lparr>room := 2, link := True, sent := [1, 2],
                                  timeout_set := Some 10000\<rparr>))
                       \<lparr>ints := (\<lambda>a. 0)(7 := - 2)\<rparr>)
   \<and> write_buf sample_codes (build_of ESP32 False) sim_ops
       (begun (build_of ESP32 False) sim_idle) (Some [1, 2, 3]) 3
     = Returns (3, (begun (build_of ESP32 False)
                      (sim_idle\<lparr>link := True, sent := [1, 2, 3], timeout_set := Some 10000\<rparr>))
                     \<lparr>ints := (\<lambda>a. 0)(7 := 200)\<rparr>)
   \<and> write_buf sample_codes (build_of ESP32 False) sim_ops
       (fresh (build_of ESP32 False) sim_idle) (Some [1, 2, 3]) 0
     = Returns (- 1000, fresh (build_of ESP32 False) sim_idle)"
proof -
  have null_data:
    "write_buf sample_codes (build_of ESP32 False) sim_ops
       (begun (build_of ESP32 False) sim_idle) None 3
     = Returns (- 2, (begun (build_of ESP32 False) sim_idle)\<lparr>ints := (\<lambda>a. 0)(7 := - 2)\<rparr>)"
    using write_buf_cases [where data = None and n = 3
        and s = "begun (build_of ESP32 False) sim_idle"
        and K = sample_codes and B = "build_of ESP32 False" and ops = sim_ops,
        THEN conjunct1]
    by (simp add: sim_defs step_defs)
  have no_network:
    "write_buf sample_codes (build_of ESP32 False) sim_ops
       (begun (build_of ESP32 False) (sim_idle\<lparr>wifi_up := False\<rparr>)) (Some [1, 2, 3]) 3
     = Returns (- 3, (begun (build_of ESP32 False) (sim_idle\<lparr>wifi_up := False\<rparr>))
                       \<lparr>ints := (\<lambda>a. 0)(7 := - 3)\<rparr>)"
    using write_buf_cases [where data = "Some [1, 2, 3]" and d = "[1, 2, 3]" and n = 3
        and s = "begun (build_of ESP32 False) (sim_idle\<lparr>wifi_up := False\<rparr>)"
        and sr = "begun (build_of ESP32 False) (sim_idle\<lparr>wifi_up := False\<rparr>)"
        and K = sample_codes and B = "build_of ESP32 False" and ops = sim_ops,
        THEN conjunct2, THEN conjunct1]
    by (simp add: sim_defs step_defs)
  have refused:
    "write_buf sample_codes (build_of ESP32 False) sim_ops
       (begun (build_of ESP32 False) (sim_idle\<lparr>keeps := False\<rparr>)) (Some [1, 2, 3]) 3
     = Returns (- 1, (begun (build_of ESP32 False)
                        (sim_idle\<lparr>keeps := False, timeout_set := Some 10000\<rparr>))
                       \<lparr>ints := (\<lambda>a. 0)(7 := - 1)\<rparr>)"
    using write_buf_cases [where data = "Some [1, 2, 3]" and d = "[1, 2, 3]" and n = 3
        and s = "begun (build_of ESP32 False) (sim_idle\<lparr>keeps := False\<rparr>)"
        and sr = "begun (build_of ESP32 False) (sim_idle\<lparr>keeps := False\<rparr>)"
        and p = 1 and ec = "sim_idle\<lparr>keeps := False\<rparr>"
        and sf = "begun (build_of ESP32 False)
                    (sim_idle\<lparr>keeps := False, timeout_set := Some 10000\<rparr>)"
        and K = sample_codes and B = "build_of ESP32 False" and ops = sim_ops,
        THEN conjunct2, THEN conjunct2, THEN conjunct1]
    by (simp add: sim_defs step_defs)
  have short_write:
    "write_buf sample_codes (build_of ESP32 False) sim_ops
       (begun (build_of ESP32 False) (sim_idle\<lparr>room := 2\<rparr>)) (Some [1, 2, 3]) 3
     = Returns (- 2, (begun (build_of ESP32 False)
                        (sim_idle\<lparr>room := 2, link := True, sent := [1, 2],
                                  timeout_set := Some 10000\<rparr>))
                       \<lparr>ints := (\<lambda>a. 0)(7 := - 2)\<rparr>)"
    using write_buf_cases [where data = "Some [1, 2, 3]" and d = "[1, 2, 3]" and n = 3
        and s = "begun (build_of ESP32 False) (sim_idle\<lparr>room := 2\<rparr>)"
        and sr = "begun (build_of ESP32 False) (sim_idle\<lparr>room := 2\<rparr>)"
        and p = 1 and c = 0 and ec = "sim_idle\<lparr>room := 2\<rparr>"
        and sw = "begun (build_of ESP32 False)
                    (sim_idle\<lparr>room := 2, link := True, timeout_set := Some 10000\<rparr>)"
        and q = 1 and res = 2
        and ew = "sim_idle\<lparr>room := 2, link := True, sent := [1, 2], timeout_set := Some 10000\<rparr>"
        and K = sample_codes and B = "build_of ESP32 False" and ops = sim_ops,
        THEN conjunct2, THEN conjunct2, THEN conjunct2, THEN conjunct1]
    by (simp add: sim_defs step_defs)
  have written:
    "write_buf sample_codes (build_of ESP32 False) sim_ops
       (begun (build_of ESP32 False) sim_idle) (Some [1, 2, 3]) 3
     = Returns (3, (begun (build_of ESP32 False)
                      (sim_idle\<lparr>link := True, sent := [1, 2, 3], timeout_set := Some 10000\<rparr>))
                     \<lparr>ints := (\<lambda>a. 0)(7 := 200)\<rparr>)"
    using write_buf_cases [where data = "Some [1, 2, 3]" and d = "[1, 2, 3]" and n = 3
        and s = "begun (build_of ESP32 False) sim_idle"
        and sr = "begun (build_of ESP32 False) sim_idle"
        and p = 1 and c = 0 and ec = sim_idle
        and sw = "begun (build_of ESP32 False)
                    (sim_idle\<lparr>link := True, timeout_set := Some 10000\<rparr>)"
        and q = 1 and res = 3
        and ew = "sim_idle\<lparr>link := True, sent := [1, 2, 3], timeout_set := Some 10000\<rparr>"
        and K = sample_codes and B = "build_of ESP32 False" and ops = sim_ops,
        THEN conjunct2, THEN conjunct2, THEN conjunct2, THEN conjunct1]
    by (simp add: sim_defs step_defs)
  have zero_size:
    "write_buf sample_codes (build_of ESP32 False) sim_ops
       (fresh (build_of ESP32 False) sim_idle) (Some [1, 2, 3]) 0
     = Returns (- 1000, fresh (build_of ESP32 False) sim_idle)"
    using write_buf_cases [where data = "Some [1, 2, 3]" and n = 0
        and s = "fresh (build_of ESP32 False) sim_idle"
        and K = sample_codes and B = "build_of ESP32 False" and ops = sim_ops,
        THEN conjunct1]
    by (simp add: sim_defs step_defs)
  show ?thesis
    by (intro conjI null_data no_network refused short_write written zero_size)
qed

text \<open>
  The claim as stated fails where no pointer is registered: on a fresh object a write of
  a null buffer returns \<open>- 1000\<close>, whatever the send-request-failed macro is (here \<open>- 2\<close>).
\<close>

theorem write_buf_counterexample:
  "write_buf sample_codes (build_of ESP32 False) sim_ops
     (fresh (build_of ESP32 False) sim_idle) None 3
     = Returns (- 1000, fresh (build_of ESP32 False) sim_idle)
   \<and> TCP_ERROR_SEND_REQUEST_FAILED sample_codes \<noteq> - 1000"
  by (simp add: sim_defs run_defs)

subsection \<open>Connecting\<close>

text \<open>
  The loop of \<^verbatim>\<open>flush\<close> ends on a client whose \<^verbatim>\<open>available()\<close> goes down with every
  \<^verbatim>\<open>read()\<close>, and \<^verbatim>\<open>connect()\<close> on a connected client then returns true after the
  flush, without a dial.
\<close>

lemma flush_loop_terminates:
  assumes dec: "\<And>e. 0 <s fst (Client_available ops p e) \<Longrightarrow>
      sint (fst (Client_available ops p (snd (Client_read ops p (snd (Client_available ops p e))))))
        < sint (fst (Client_available ops p e))"
  shows "\<exists>e'. flush_loop ops p e = Some e'"
proof (induction "nat (sint (fst (Client_available ops p e)))" arbitrary: e rule: less_induct)
  case less
  show ?case
  proof (cases "0 <s fst (Client_available ops p e)")
    case True
    let ?e = "snd (Client_read ops p (snd (Client_available ops p e)))"
    have "nat (sint (fst (Client_available ops p ?e))) < nat (sint (fst (Client_available ops p e)))"
      using dec [OF True] True by (simp add: word_sless_alt)
    from less [OF this] obtain e' where "flush_loop ops p ?e = Some e'"
      by blast
    with True show ?thesis
      by (subst flush_loop.simps) (simp add: Let_def)
  next
    case False
    then show ?thesis
      by (subst flush_loop.simps) (simp add: Let_def)
  qed
qed

lemma connect_client:
  "connect K ops s = Returns (b, s') \<Longrightarrow> client s' = client s"
  by (auto simp add: connect_def connected_def flush_def with_client_def setError_def Let_def
      split: option.splits prod.splits if_splits)

lemma connect_reuses_connection:
  assumes "client s = Some p" and "Client_connected ops p (env s) = (c, ec)" and "c \<noteq> 0"
    and "flush_loop ops p ec = Some ef"
  shows "connect K ops s = Returns (True, s\<lparr>env := ef\<rparr>)"
  using assms by (simp add: connect_def connected_def flush_def)

text \<open>
  Claim C2, at a dial that fails. \<^verbatim>\<open>connect()\<close> is declared \<^verbatim>\<open>bool\<close> and returns the
  \<^verbatim>\<open>int\<close> of \<^verbatim>\<open>setError(ESP_SIGNER_ERROR_TCP_ERROR_CONNECTION_REFUSED)\<close>, so what the
  caller gets is whether that \<^verbatim>\<open>int\<close> is not zero: true when no response-code pointer is
  registered (the \<^verbatim>\<open>int\<close> is \<open>- 1000\<close>), and true with a pointer registered unless the
  macro is 0. The caller cannot tell the failed dial from a connection.
\<close>

theorem connect_failed_dial:
  "client s = Some p \<and> Client_connected ops p (env s) = (0, ec)
   \<and> (if host s \<noteq> [] then Client_connect_host ops p (host s) (port s) ec
       else Client_connect_ip ops p (ip s) (port s) ec) = (0, ed) \<longrightarrow>
     connect K ops s
       = Returns (fst (setError (s\<lparr>env := ed\<rparr>) (TCP_ERROR_CONNECTION_REFUSED K)) \<noteq> 0,
                  snd (setError (s\<lparr>env := ed\<rparr>) (TCP_ERROR_CONNECTION_REFUSED K)))
     \<and> (response_code s = None \<longrightarrow> connect K ops s = Returns (True, s\<lparr>env := ed\<rparr>))
     \<and> (response_code s = Some a \<and> TCP_ERROR_CONNECTION_REFUSED K \<noteq> 0 \<longrightarrow>
          connect K ops s
            = Returns (True, s\<lparr>env := ed, ints := (ints s)(a := TCP_ERROR_CONNECTION_REFUSED K)\<rparr>))"
  by (auto simp add: connect_def connected_def with_client_def setError_def Let_def
      split: option.splits prod.splits)

text \<open>
  On the platform, with an unreachable peer: \<^verbatim>\<open>connect("example.com", 443)\<close> on a fresh
  object returns 1 and the socket stays closed; with a pointer registered
  \<^verbatim>\<open>connect()\<close> stores \<open>- 1\<close> and returns true; and \<^verbatim>\<open>write\<close>, which tests
  \<^verbatim>\<open>!connect()\<close>, goes on to the underlying write and reports send-request-failed
  (\<open>- 2\<close>) for a connection that was refused.
\<close>

theorem connect_failed_dial_witness:
  "connect_host sample_codes sim_ops
     (fresh (build_of ESP32 False) (sim_idle\<lparr>reachable := False\<rparr>)) ''example.com'' 443
     = Returns (1, (fresh (build_of ESP32 False) (sim_idle\<lparr>reachable := False\<rparr>))
                     \<lparr>host := ''example.com'', port := 443\<rparr>)
   \<and> link (sim_idle\<lparr>reachable := False\<rparr>) = False
   \<and> connect sample_codes sim_ops (begun (build_of ESP32 False) (sim_idle\<lparr>reachable := False\<rparr>))
     = Returns (True, (begun (build_of ESP32 False) (sim_idle\<lparr>reachable := False\<rparr>))
                        \<lparr>ints := (\<lambda>a. 0)(7 := - 1)\<rparr>)
   \<and> write_buf sample_codes (build_of ESP32 False) sim_ops
       (begun (build_of ESP32 False) (sim_idle\<lparr>reachable := False\<rparr>)) (Some [1, 2, 3]) 3
     = Returns (- 2, (begun (build_of ESP32 False) (sim_idle\<lparr>reachable := False\<rparr>))
                       \<lparr>ints := (\<lambda>a. 0)(7 := - 2)\<rparr>)"
proof -
  have unregistered:
    "connect_host sample_codes sim_ops
       (fresh (build_of ESP32 False) (sim_idle\<lparr>reachable := False\<rparr>)) ''example.com'' 443
     = Returns (1, (fresh (build_of ESP32 False) (sim_idle\<lparr>reachable := False\<rparr>))
                     \<lparr>host := ''example.com'', port := 443\<rparr>)"
    using connect_failed_dial [where K = sample_codes and ops = sim_ops and p = 1
        and s = "(fresh (build_of ESP32 False) (sim_idle\<lparr>reachable := False\<rparr>))
                   \<lparr>host := ''example.com'', port := 443\<rparr>"
        and ec = "sim_idle\<lparr>reachable := False\<rparr>" and ed = "sim_idle\<lparr>reachable := False\<rparr>"]
    by (simp add: sim_defs connect_host_def setError_def)
  have registered:
    "connect sample_codes sim_ops (begun (build_of ESP32 False) (sim_idle\<lparr>reachable := False\<rparr>))
     = Returns (True, (begun (build_of ESP32 False) (sim_idle\<lparr>reachable := False\<rparr>))
                        \<lparr>ints := (\<lambda>a. 0)(7 := - 1)\<rparr>)"
    using connect_failed_dial [where K = sample_codes and ops = sim_ops and p = 1 and a = 7
        and s = "begun (build_of ESP32 False) (sim_idle\<lparr>reachable := False\<rparr>)"
        and ec = "sim_idle\<lparr>reachable := False\<rparr>" and ed = "sim_idle\<lparr>reachable := False\<rparr>"]
    by (simp add: sim_defs setError_def Let_def)
  have closed: "link (sim_idle\<lparr>reachable := False\<rparr>) = False"
    by (simp add: sim_idle_def)
  have written:
    "write_buf sample_codes (build_of ESP32 False) sim_ops
       (begun (build_of ESP32 False) (sim_idle\<lparr>reachable := False\<rparr>)) (Some [1, 2, 3]) 3
     = Returns (- 2, (begun (build_of ESP32 False) (sim_idle\<lparr>reachable := False\<rparr>))
                       \<lparr>ints := (\<lambda>a. 0)(7 := - 2)\<rparr>)"
    by (simp add: sim_defs run_defs)
  show ?thesis
    by (intro conjI unregistered closed registered written)
qed

subsection \<open>Reading\<close>

text \<open>
  Claim C5, as amended. \<^verbatim>\<open>readBytes(buf, len)\<close> returns what
  \<^verbatim>\<open>setError(ESP_SIGNER_ERROR_TCP_ERROR_CONNECTION_REFUSED)\<close> returns when \<open>client\<close> is
  null and what \<^verbatim>\<open>setError(ESP_SIGNER_ERROR_TCP_RESPONSE_READ_FAILED)\<close> returns when the
  underlying read delivers a count other than \<open>len\<close>; otherwise it calls
  \<^verbatim>\<open>setError(ESP_SIGNER_ERROR_HTTP_CODE_OK)\<close> and returns \<open>len\<close>. \<^verbatim>\<open>setError\<close> returns and
  records the code when a response-code pointer is registered, and returns \<open>- 1000\<close> and
  records nothing when none is. \<^verbatim>\<open>read(buf, size)\<close> is \<^verbatim>\<open>readBytes(buf, size)\<close>.
\<close>

theorem readBytes_cases:
  "(client s = None \<longrightarrow>
      readBytes K ops s len
        = ((fst (setError s (TCP_ERROR_CONNECTION_REFUSED K)), []),
           snd (setError s (TCP_ERROR_CONNECTION_REFUSED K))))
   \<and> (client s = Some p \<and> Client_readBytes ops p len (env s) = ((r, bs), e) \<and> r \<noteq> len \<longrightarrow>
      readBytes K ops s len
        = ((fst (setError (s\<lparr>env := e\<rparr>) (TCP_RESPONSE_READ_FAILED K)), bs),
           snd (setError (s\<lparr>env := e\<rparr>) (TCP_RESPONSE_READ_FAILED K))))
   \<and> (client s = Some p \<and> Client_readBytes ops p len (env s) = ((len, bs), e) \<longrightarrow>
      readBytes K ops s len = ((len, bs), snd (setError (s\<lparr>env := e\<rparr>) (HTTP_CODE_OK K))))
   \<and> (response_code s = None \<longrightarrow> setError s code = (- 1000, s))
   \<and> (response_code s = Some a \<longrightarrow> setError s code = (code, s\<lparr>ints := (ints s)(a := code)\<rparr>))
   \<and> read_buf K ops s n = readBytes K ops s n"
  by (simp add: readBytes_def read_buf_def setError_unregistered setError_registered
      split: prod.splits)

lemmas read_defs = readBytes_def read_buf_def setError_def Let_def

theorem readBytes_cases_witness:
  "readBytes sample_codes sim_ops (begun (build_of ESP32 True) sim_idle) 4
     = ((- 1, []), (begun (build_of ESP32 True) sim_idle)\<lparr>ints := (\<lambda>a. 0)(7 := - 1)\<rparr>)
   \<and> readBytes sample_codes sim_ops
       (begun (build_of ESP32 False) (sim_idle\<lparr>pending := [1, 2]\<rparr>)) 4
     = ((- 4, [1, 2]), (begun (build_of ESP32 False) sim_idle)\<lparr>ints := (\<lambda>a. 0)(7 := - 4)\<rparr>)
   \<and> readBytes sample_codes sim_ops
       (begun (build_of ESP32 False) (sim_idle\<lparr>pending := [1, 2, 3, 4, 5]\<rparr>)) 4
     = ((4, [1, 2, 3, 4]),
        (begun (build_of ESP32 False) (sim_idle\<lparr>pending := [5]\<rparr>))\<lparr>ints := (\<lambda>a. 0)(7 := 200)\<rparr>)
   \<and> read_buf sample_codes sim_ops
       (begun (build_of ESP32 False) (sim_idle\<lparr>pending := [1, 2, 3, 4, 5]\<rparr>)) 4
     = readBytes sample_codes sim_ops
         (begun (build_of ESP32 False) (sim_idle\<lparr>pending := [1, 2, 3, 4, 5]\<rparr>)) 4"
proof -
  have null_client:
    "readBytes sample_codes sim_ops (begun (build_of ESP32 True) sim_idle) 4
     = ((- 1, []), (begun (build_of ESP32 True) sim_idle)\<lparr>ints := (\<lambda>a. 0)(7 := - 1)\<rparr>)"
    using readBytes_cases [where s = "begun (build_of ESP32 True) sim_idle" and len = 4
        and K = sample_codes and ops = sim_ops, THEN conjunct1]
    by (simp add: sim_defs setError_def Let_def)
  have short_read:
    "readBytes sample_codes sim_ops
       (begun (build_of ESP32 False) (sim_idle\<lparr>pending := [1, 2]\<rparr>)) 4
     = ((- 4, [1, 2]), (begun (build_of ESP32 False) sim_idle)\<lparr>ints := (\<lambda>a. 0)(7 := - 4)\<rparr>)"
    using readBytes_cases [where s = "begun (build_of ESP32 False) (sim_idle\<lparr>pending := [1, 2]\<rparr>)"
        and len = 4 and p = 1 and r = 2 and bs = "[1, 2]" and e = sim_idle
        and K = sample_codes and ops = sim_ops, THEN conjunct2, THEN conjunct1]
    by (simp add: sim_defs setError_def Let_def)
  have full_read:
    "readBytes sample_codes sim_ops
       (begun (build_of ESP32 False) (sim_idle\<lparr>pending := [1, 2, 3, 4, 5]\<rparr>)) 4
     = ((4, [1, 2, 3, 4]),
        (begun (build_of ESP32 False) (sim_idle\<lparr>pending := [5]\<rparr>))\<lparr>ints := (\<lambda>a. 0)(7 := 200)\<rparr>)"
    using readBytes_cases [where s = "begun (build_of ESP32 False) (sim_idle\<lparr>pending := [1, 2, 3, 4, 5]\<rparr>)"
        and len = 4 and p = 1 and bs = "[1, 2, 3, 4]" and e = "sim_idle\<lparr>pending := [5]\<rparr>"
        and K = sample_codes and ops = sim_ops, THEN conjunct2, THEN conjunct2, THEN conjunct1]
    by (simp add: sim_defs setError_def Let_def)
  have same:
    "read_buf sample_codes sim_ops
       (begun (build_of ESP32 False) (sim_idle\<lparr>pending := [1, 2, 3, 4, 5]\<rparr>)) 4
     = readBytes sample_codes sim_ops
         (begun (build_of ESP32 False) (sim_idle\<lparr>pending := [1, 2, 3, 4, 5]\<rparr>)) 4"
    using readBytes_cases [where s = "begun (build_of ESP32 False) (sim_idle\<lparr>pending := [1, 2, 3, 4, 5]\<rparr>)"
        and n = 4 and K = sample_codes and ops = sim_ops]
    by simp
  show ?thesis
    by (intro conjI null_client short_read full_read same)
qed

text \<open>
  The claim as stated fails where no pointer is registered: a read that delivers two of
  four bytes returns \<open>- 1000\<close>, not the response-read-failed macro (here \<open>- 4\<close>), and a
  read that delivers all four records nothing.
\<close>

theorem readBytes_counterexample:
  "readBytes sample_codes sim_ops (fresh (build_of ESP32 False) (sim_idle\<lparr>pending := [1, 2]\<rparr>)) 4
     = ((- 1000, [1, 2]), fresh (build_of ESP32 False) sim_idle)
   \<and> TCP_RESPONSE_READ_FAILED sample_codes \<noteq> - 1000
   \<and> readBytes sample_codes sim_ops
       (fresh (build_of ESP32 False) (sim_idle\<lparr>pending := [1, 2, 3, 4]\<rparr>)) 4
     = ((4, [1, 2, 3, 4]), fresh (build_of ESP32 False) sim_idle)"
  by (simp add: sim_defs read_defs)

subsection \<open>The convenience wrappers\<close>

text \<open>
  Claim C10. \<^verbatim>\<open>write(v)\<close> is \<^verbatim>\<open>write(buf, 1)\<close> on the one-byte buffer holding \<open>v\<close>;
  \<^verbatim>\<open>print(s)\<close> is \<^verbatim>\<open>send(s)\<close>, that is \<^verbatim>\<open>send(s, 0)\<close>; for a string \<open>s\<close>,
  \<^verbatim>\<open>send(s, 0)\<close> is \<^verbatim>\<open>write(s, strlen(s))\<close>; and \<^verbatim>\<open>readBytes(char *, len)\<close> is
  \<^verbatim>\<open>readBytes(uint8_t *, len)\<close>.
\<close>

theorem wrappers_refine:
  "write_byte K B ops s v = write_buf K B ops s (Some [v]) 1
   \<and> print K B ops s data = send K B ops s data 0
   \<and> send K B ops s (Some d) 0 = write_buf K B ops s (Some d) (strlen d)
   \<and> readBytes_char K ops s len = readBytes K ops s len"
  by (simp add: write_byte_def print_def send_def readBytes_char_def)

theorem wrappers_refine_witness:
  "print sample_codes (build_of ESP32 False) sim_ops (begun (build_of ESP32 False) sim_idle)
     (Some [71, 69, 84])
     = Returns (3, (begun (build_of ESP32 False)
                      (sim_idle\<lparr>link := True, sent := [71, 69, 84], timeout_set := Some 10000\<rparr>))
                     \<lparr>ints := (\<lambda>a. 0)(7 := 200)\<rparr>)
   \<and> write_byte sample_codes (build_of ESP32 False) sim_ops
       (begun (build_of ESP32 False) sim_idle) 71
     = Returns (1, (begun (build_of ESP32 False)
                      (sim_idle\<lparr>link := True, sent := [71], timeout_set := Some 10000\<rparr>))
                     \<lparr>ints := (\<lambda>a. 0)(7 := 200)\<rparr>)
   \<and> print sample_codes (build_of ESP32 False) sim_ops (begun (build_of ESP32 False) sim_idle) None
     = Null_Deref"
  using
    wrappers_refine [where K = sample_codes and B = "build_of ESP32 False" and ops = sim_ops
      and s = "begun (build_of ESP32 False) sim_idle" and data = "Some [71, 69, 84]"
      and d = "[71, 69, 84]" and v = 71]
    wrappers_refine [where K = sample_codes and B = "build_of ESP32 False" and ops = sim_ops
      and s = "begun (build_of ESP32 False) sim_idle" and data = None, THEN conjunct2, THEN conjunct1]
  by (simp add: sim_defs run_defs strlen_def send_def)

subsection \<open>Trust configuration\<close>

text \<open>
  Claim C4, as amended. In a build with the client the object owns, and with that client
  in place: \<^verbatim>\<open>setCACert(caCert)\<close> with a non-null \<open>caCert\<close> records the type \<open>data\<close> and
  hands the certificate to the client (\<^verbatim>\<open>setCACert\<close> on ESP32, \<^verbatim>\<open>setTrustAnchors\<close> on
  ESP8266 and RP2040); with a null \<open>caCert\<close> it records the type \<open>none\<close>, stops the
  connection and calls the client's \<^verbatim>\<open>setInsecure()\<close>, on ESP32 only where the IDF
  is 3.3.0 or later. In a build with an external client \<^verbatim>\<open>setCACert\<close> does nothing.
  \<^verbatim>\<open>getCertType()\<close> returns the recorded type.
\<close>

theorem setCACert_cases:
  "(ESP_SIGNER_ENABLE_EXTERNAL_CLIENT B \<longrightarrow> setCACert B ops s caCert = Returns s)
   \<and> (\<not> ESP_SIGNER_ENABLE_EXTERNAL_CLIENT B \<and> target B = ESP32 \<and> client s = Some p \<longrightarrow>
        setCACert B ops s (Some pem)
          = Returns (s\<lparr>certType := esp_signer_cert_type_data,
                       env := Client_setCACert ops p (Some pem) (env s)\<rparr>)
      \<and> setCACert B ops s None
          = Returns (s\<lparr>certType := esp_signer_cert_type_none,
                       env := (if ESP_IDF_3_3_0 B then Client_setInsecure ops p else id)
                                (Client_setCACert ops p None (Client_stop ops p (env s)))\<rparr>))
   \<and> (\<not> ESP_SIGNER_ENABLE_EXTERNAL_CLIENT B \<and> target B \<noteq> ESP32 \<and> client s = Some p \<longrightarrow>
        setCACert B ops s (Some pem)
          = Returns (s\<lparr>certType := esp_signer_cert_type_data, x509 := Some pem,
                       env := Client_setTrustAnchors ops p pem
                                (Client_setBufferSizes ops p (bsslRxSize s) (bsslTxSize s) (env s))\<rparr>)
      \<and> setCACert B ops s None
          = Returns (s\<lparr>certType := esp_signer_cert_type_none,
                       env := Client_setInsecure ops p (Client_setNoDelay ops p True
                                (Client_stop ops p
                                  (Client_setBufferSizes ops p (bsslRxSize s) (bsslTxSize s) (env s))))\<rparr>))
   \<and> getCertType s = certType s"
  by (cases "target B")
    (auto simp add: setCACert_def setInsecure_def apply_buffer_sizes_def with_client_def
      BearSSL_def Let_def getCertType_def)

lemmas trust_defs =
  setCACert_def setInsecure_def apply_buffer_sizes_def with_client_def BearSSL_def Let_def
  getCertType_def

theorem setCACert_cases_witness:
  "setCACert (build_of ESP32 False) sim_ops
     (fresh (build_of ESP32 False) (sim_idle\<lparr>link := True\<rparr>)) (Some [45, 45])
     = Returns ((fresh (build_of ESP32 False) (sim_idle\<lparr>link := True, ca := Some [45, 45]\<rparr>))
                  \<lparr>certType := esp_signer_cert_type_data\<rparr>)
   \<and> setCACert (build_of ESP32 False) sim_ops
       (fresh (build_of ESP32 False) (sim_idle\<lparr>link := True, ca := Some [45, 45]\<rparr>)) None
     = Returns ((fresh (build_of ESP32 False) (sim_idle\<lparr>insecure := True\<rparr>))
                  \<lparr>certType := esp_signer_cert_type_none\<rparr>)
   \<and> setCACert (build_of ESP8266 False) sim_ops
       (fresh (build_of ESP8266 False) (sim_idle\<lparr>link := True\<rparr>)) None
     = Returns ((fresh (build_of ESP8266 False) (sim_idle\<lparr>insecure := True\<rparr>))
                  \<lparr>certType := esp_signer_cert_type_none\<rparr>)
   \<and> getCertType ((fresh (build_of ESP32 False) (sim_idle\<lparr>insecure := True\<rparr>))
                  \<lparr>certType := esp_signer_cert_type_none\<rparr>) = esp_signer_cert_type_none"
proof -
  have esp32:
    "setCACert (build_of ESP32 False) sim_ops
       (fresh (build_of ESP32 False) (sim_idle\<lparr>link := True\<rparr>)) (Some [45, 45])
     = Returns ((fresh (build_of ESP32 False) (sim_idle\<lparr>link := True, ca := Some [45, 45]\<rparr>))
                  \<lparr>certType := esp_signer_cert_type_data\<rparr>)"
    using setCACert_cases [where B = "build_of ESP32 False" and ops = sim_ops and p = 1
        and s = "fresh (build_of ESP32 False) (sim_idle\<lparr>link := True\<rparr>)" and pem = "[45, 45]",
        THEN conjunct2, THEN conjunct1]
    by (simp add: sim_defs)
  have esp32_null:
    "setCACert (build_of ESP32 False) sim_ops
       (fresh (build_of ESP32 False) (sim_idle\<lparr>link := True, ca := Some [45, 45]\<rparr>)) None
     = Returns ((fresh (build_of ESP32 False) (sim_idle\<lparr>insecure := True\<rparr>))
                  \<lparr>certType := esp_signer_cert_type_none\<rparr>)"
    using setCACert_cases [where B = "build_of ESP32 False" and ops = sim_ops and p = 1
        and s = "fresh (build_of ESP32 False) (sim_idle\<lparr>link := True, ca := Some [45, 45]\<rparr>)",
        THEN conjunct2, THEN conjunct1]
    by (simp add: sim_defs)
  have esp8266_null:
    "setCACert (build_of ESP8266 False) sim_ops
       (fresh (build_of ESP8266 False) (sim_idle\<lparr>link := True\<rparr>)) None
     = Returns ((fresh (build_of ESP8266 False) (sim_idle\<lparr>insecure := True\<rparr>))
                  \<lparr>certType := esp_signer_cert_type_none\<rparr>)"
    using setCACert_cases [where B = "build_of ESP8266 False" and ops = sim_ops and p = 1
        and s = "fresh (build_of ESP8266 False) (sim_idle\<lparr>link := True\<rparr>)",
        THEN conjunct2, THEN conjunct2, THEN conjunct1]
    by (simp add: sim_defs)
  have recorded:
    "getCertType ((fresh (build_of ESP32 False) (sim_idle\<lparr>insecure := True\<rparr>))
                  \<lparr>certType := esp_signer_cert_type_none\<rparr>) = esp_signer_cert_type_none"
    by (simp add: getCertType_def)
  show ?thesis
    by (intro conjI esp32 esp32_null esp8266_null recorded)
qed

text \<open>
  The claim as stated fails in a build with an external client: \<^verbatim>\<open>setCACert\<close> leaves the
  recorded type \<open>undefined\<close> and the client as it was, for a certificate and for a null
  pointer. On ESP32 with an IDF before 3.3.0 the client's \<^verbatim>\<open>setInsecure()\<close> is not
  called.
\<close>

theorem setCACert_counterexample:
  "setCACert (build_of ESP32 True) sim_ops (attached (sim_idle\<lparr>link := True\<rparr>)) (Some [45, 45])
     = Returns (attached (sim_idle\<lparr>link := True\<rparr>))
   \<and> setCACert (build_of ESP32 True) sim_ops (attached (sim_idle\<lparr>link := True\<rparr>)) None
     = Returns (attached (sim_idle\<lparr>link := True\<rparr>))
   \<and> getCertType (attached (sim_idle\<lparr>link := True\<rparr>)) = esp_signer_cert_type_undefined
   \<and> setCACert ((build_of ESP32 False)\<lparr>ESP_IDF_3_3_0 := False\<rparr>) sim_ops
       (fresh (build_of ESP32 False) (sim_idle\<lparr>link := True\<rparr>)) None
     = Returns ((fresh (build_of ESP32 False) sim_idle)\<lparr>certType := esp_signer_cert_type_none\<rparr>)
   \<and> insecure sim_idle = False"
  by (simp add: sim_defs trust_defs)

text \<open>
  Claim C3. \<^verbatim>\<open>setCertFile\<close> reaches the file system and the client's trust settings
  only when \<open>clockReady\<close> holds and the file name is not empty: when the clock is not
  ready or the name is empty, the call returns whether the recorded type is \<open>file\<close> and
  leaves the object and the platform as they were, but for
  \<^verbatim>\<open>client->setBufferSizes\<close> on ESP8266 and RP2040. Every call that returns, returns
  whether the recorded type is \<open>file\<close> after it. \<open>clockReady\<close> is false on construction
  and is what \<^verbatim>\<open>setClockStatus\<close> was last given.
\<close>

theorem setCertFile_gate:
  "(\<not> clockReady s \<or> caCertFile = Some [] \<longrightarrow>
      setCertFile B ops s caCertFile st =
        (if \<not> ESP_SIGNER_ENABLE_EXTERNAL_CLIENT B \<and> BearSSL B then
           (case client s of
              None \<Rightarrow> Null_Deref
            | Some p \<Rightarrow>
                Returns (certType s = esp_signer_cert_type_file,
                         s\<lparr>env := Client_setBufferSizes ops p (bsslRxSize s) (bsslTxSize s) (env s)\<rparr>))
         else Returns (certType s = esp_signer_cert_type_file, s)))
   \<and> (setCertFile B ops s caCertFile st = Returns (b, s') \<longrightarrow>
        b = (certType s' = esp_signer_cert_type_file))
   \<and> clockReady (setClockStatus s status) = status
   \<and> clockReady (GAuth_TCP_Client_new B p0 m e) = False"
proof -
  have closed: "setCertFile B ops s caCertFile st =
        (if \<not> ESP_SIGNER_ENABLE_EXTERNAL_CLIENT B \<and> BearSSL B then
           (case client s of
              None \<Rightarrow> Null_Deref
            | Some p \<Rightarrow>
                Returns (certType s = esp_signer_cert_type_file,
                         s\<lparr>env := Client_setBufferSizes ops p (bsslRxSize s) (bsslTxSize s) (env s)\<rparr>))
         else Returns (certType s = esp_signer_cert_type_file, s))"
    if "\<not> clockReady s \<or> caCertFile = Some []"
    using that
    by (auto simp add: setCertFile_def apply_buffer_sizes_def with_client_def split: option.splits)
  have result: "b = (certType s' = esp_signer_cert_type_file)"
    if "setCertFile B ops s caCertFile st = Returns (b, s')"
    using that unfolding setCertFile_def bind_outcome_Returns by auto
  show ?thesis
    using closed result by (simp add: setClockStatus_def GAuth_TCP_Client_new_def)
qed

text \<open>
  On ESP8266 with the file \<open>ca.der\<close> in flash: before the clock is ready the call returns
  false and changes nothing; after \<^verbatim>\<open>setClockStatus(true)\<close> it installs the file's bytes,
  frees its buffer and returns true. On ESP32 with SdFat and the file on the card, a
  second call frees the buffer the first one left in \<open>cert\<close> and installs the file
  again.
\<close>

theorem setCertFile_gate_witness:
  "clockReady (with_fs (build_of ESP8266 False) sim_file) = False
   \<and> setCertFile (build_of ESP8266 False) sim_ops (with_fs (build_of ESP8266 False) sim_file)
        (Some ''ca.der'') mb_fs_mem_storage_type_flash
       = Returns (False, with_fs (build_of ESP8266 False) sim_file)
   \<and> setCertFile (build_of ESP8266 False) sim_ops
        (setClockStatus (with_fs (build_of ESP8266 False) sim_file) True)
        (Some ''ca.der'') mb_fs_mem_storage_type_flash
       = Returns (True,
           (with_fs (build_of ESP8266 False) (sim_installed\<lparr>freed := 1\<rparr>))
             \<lparr>clockReady := True, certType := esp_signer_cert_type_file\<rparr>)
   \<and> certType ((with_fs (build_of ESP8266 False) (sim_installed\<lparr>freed := 1\<rparr>))
                  \<lparr>clockReady := True, certType := esp_signer_cert_type_file\<rparr>)
       = esp_signer_cert_type_file
   \<and> setCertFile sdfat_build sim_ops
        ((with_fs sdfat_build sim_installed)
           \<lparr>clockReady := True, cert := Some [48, 130], certType := esp_signer_cert_type_file\<rparr>)
        (Some ''ca.pem'') mb_fs_mem_storage_type_sd
       = Returns (True,
           (with_fs sdfat_build (sim_installed\<lparr>freed := 1\<rparr>))
             \<lparr>clockReady := True, cert := Some [48, 130],
               certType := esp_signer_cert_type_file\<rparr>)"
proof -
  have not_ready:
    "clockReady (with_fs (build_of ESP8266 False) sim_file) = False"
    using setCertFile_gate [where B = "build_of ESP8266 False" and ?p0.0 = 1 and m = "\<lambda>a. 0"
        and e = sim_file, THEN conjunct2, THEN conjunct2, THEN conjunct2]
    by (simp add: with_fs_def fresh_def setConfig_def)
  have gated:
    "setCertFile (build_of ESP8266 False) sim_ops (with_fs (build_of ESP8266 False) sim_file)
        (Some ''ca.der'') mb_fs_mem_storage_type_flash
       = Returns (False, with_fs (build_of ESP8266 False) sim_file)"
    using not_ready
      setCertFile_gate [where B = "build_of ESP8266 False" and ops = sim_ops
        and s = "with_fs (build_of ESP8266 False) sim_file"
        and caCertFile = "Some ''ca.der''" and st = mb_fs_mem_storage_type_flash,
        THEN conjunct1]
    by (simp add: sim_defs BearSSL_def)
  have installed:
    "setCertFile (build_of ESP8266 False) sim_ops
        (setClockStatus (with_fs (build_of ESP8266 False) sim_file) True)
        (Some ''ca.der'') mb_fs_mem_storage_type_flash
       = Returns (True,
           (with_fs (build_of ESP8266 False) (sim_installed\<lparr>freed := 1\<rparr>))
             \<lparr>clockReady := True, certType := esp_signer_cert_type_file\<rparr>)"
    by (simp add: sim_defs setCertFile_def setClockStatus_def apply_buffer_sizes_def BearSSL_def
        with_client_def with_mbfs_def install_BearSSL_def Let_def word_sless_alt)
  have recorded:
    "certType ((with_fs (build_of ESP8266 False) (sim_installed\<lparr>freed := 1\<rparr>))
                \<lparr>clockReady := True, certType := esp_signer_cert_type_file\<rparr>)
       = esp_signer_cert_type_file"
    using installed
      setCertFile_gate [where B = "build_of ESP8266 False" and ops = sim_ops
        and s = "setClockStatus (with_fs (build_of ESP8266 False) sim_file) True"
        and caCertFile = "Some ''ca.der''" and st = mb_fs_mem_storage_type_flash and b = True
        and s' = "(with_fs (build_of ESP8266 False) (sim_installed\<lparr>freed := 1\<rparr>))
                   \<lparr>clockReady := True, certType := esp_signer_cert_type_file\<rparr>",
        THEN conjunct2, THEN conjunct1]
    by blast
  have again:
    "setCertFile sdfat_build sim_ops
        ((with_fs sdfat_build sim_installed)
           \<lparr>clockReady := True, cert := Some [48, 130], certType := esp_signer_cert_type_file\<rparr>)
        (Some ''ca.pem'') mb_fs_mem_storage_type_sd
       = Returns (True,
           (with_fs sdfat_build (sim_installed\<lparr>freed := 1\<rparr>))
             \<lparr>clockReady := True, cert := Some [48, 130],
               certType := esp_signer_cert_type_file\<rparr>)"
    by (simp add: sim_defs setCertFile_def apply_buffer_sizes_def BearSSL_def
        with_client_def with_mbfs_def install_ESP32_def Let_def word_sless_alt)
  show ?thesis
    by (intro conjI not_ready gated installed recorded again)
qed

subsection \<open>The timeout\<close>

text \<open>
  Claim C6, as amended. \<open>timeoutmSec\<close> is 10000 on construction, that is ten seconds.
  \<^verbatim>\<open>setTimeout(t)\<close> stores \<open>t\<close>; in a build with the client the object owns it forwards
  the timeout to that client, as \<open>t / 1000\<close> on ESP32, where it returns what the client
  returns, and as \<open>t\<close> on ESP8266 and RP2040, where it returns 1; in a build with an
  external client it stores \<open>t\<close>, returns 1 and forwards nothing. In every build but
  ESP32 with its own client, \<^verbatim>\<open>connect()\<close> passes the stored \<open>timeoutmSec\<close> to the
  underlying client after a dial that succeeded, and on ESP8266 and RP2040 that is the
  call \<^verbatim>\<open>setTimeout\<close> makes for the stored value. What \<^verbatim>\<open>connect()\<close> passes on ESP32 is
  left open.
\<close>

theorem timeout_cases:
  "timeoutmSec (GAuth_TCP_Client_new B p0 m e) = 10000
   \<and> unat (timeoutmSec (GAuth_TCP_Client_new B p0 m e)) div 1000 = 10
   \<and> (ESP_SIGNER_ENABLE_EXTERNAL_CLIENT B \<longrightarrow>
        setTimeout B ops s t = Returns (1, s\<lparr>timeoutmSec := t\<rparr>))
   \<and> (\<not> ESP_SIGNER_ENABLE_EXTERNAL_CLIENT B \<and> target B = ESP32 \<and> client s = Some p \<longrightarrow>
        setTimeout B ops s t
          = Returns (fst (Client_setTimeout ops p (t div 1000) (env s)),
                     s\<lparr>timeoutmSec := t, env := snd (Client_setTimeout ops p (t div 1000) (env s))\<rparr>))
   \<and> (\<not> ESP_SIGNER_ENABLE_EXTERNAL_CLIENT B \<and> target B \<noteq> ESP32 \<and> client s = Some p \<longrightarrow>
        setTimeout B ops s t
          = Returns (1, s\<lparr>timeoutmSec := t, env := snd (Client_setTimeout ops p t (env s))\<rparr>))
   \<and> ((ESP_SIGNER_ENABLE_EXTERNAL_CLIENT B \<or> target B \<noteq> ESP32)
       \<and> client s = Some p \<and> Client_connected ops p (env s) = (0, ec)
       \<and> (if host s \<noteq> [] then Client_connect_host ops p (host s) (port s) ec
           else Client_connect_ip ops p (ip s) (port s) ec) = (ret, ed)
       \<and> ret \<noteq> 0 \<longrightarrow>
        connect K ops s
          = Returns (fst (Client_connected ops p (snd (Client_setTimeout ops p (timeoutmSec s) ed))) \<noteq> 0,
                     s\<lparr>env := snd (Client_connected ops p
                                    (snd (Client_setTimeout ops p (timeoutmSec s) ed)))\<rparr>))
   \<and> (\<not> ESP_SIGNER_ENABLE_EXTERNAL_CLIENT B \<and> target B \<noteq> ESP32
       \<and> client s = Some p \<and> Client_connected ops p (env s) = (0, ec)
       \<and> (if host s \<noteq> [] then Client_connect_host ops p (host s) (port s) ec
           else Client_connect_ip ops p (ip s) (port s) ec) = (ret, ed)
       \<and> ret \<noteq> 0 \<longrightarrow>
        connect K ops s
          = bind_outcome (setTimeout B ops (s\<lparr>env := ed\<rparr>) (timeoutmSec s))
              (\<lambda>(r, sa). case connected ops sa of (c, sb) \<Rightarrow> Returns (c \<noteq> 0, sb)))"
  by (cases "target B")
    (auto simp add: GAuth_TCP_Client_new_def setTimeout_def with_client_def BearSSL_def Let_def
      connect_def connected_def split: prod.splits)

lemmas timeout_defs = setTimeout_def with_client_def BearSSL_def Let_def connect_def connected_def

text \<open>
  On the platform: \<^verbatim>\<open>setTimeout(5000)\<close> on ESP32, on ESP8266 and with an external
  client, and \<^verbatim>\<open>connect()\<close> on ESP8266 and with an external client.
\<close>

theorem timeout_cases_witness:
  "setTimeout (build_of ESP32 False) sim_ops (fresh (build_of ESP32 False) sim_idle) 5000
     = Returns (0, (fresh (build_of ESP32 False) (sim_idle\<lparr>timeout_set := Some 5\<rparr>))
                     \<lparr>timeoutmSec := 5000\<rparr>)
   \<and> setTimeout (build_of ESP8266 False) sim_ops (fresh (build_of ESP8266 False) sim_idle) 5000
     = Returns (1, (fresh (build_of ESP8266 False) (sim_idle\<lparr>timeout_set := Some 5000\<rparr>))
                     \<lparr>timeoutmSec := 5000\<rparr>)
   \<and> setTimeout (build_of ESP32 True) sim_ops (attached sim_idle) 5000
     = Returns (1, (attached sim_idle)\<lparr>timeoutmSec := 5000\<rparr>)
   \<and> connect sample_codes sim_ops (fresh (build_of ESP8266 False) sim_idle)
     = Returns (True, fresh (build_of ESP8266 False)
                        (sim_idle\<lparr>link := True, timeout_set := Some 10000\<rparr>))
   \<and> connect sample_codes sim_ops (attached sim_idle)
     = Returns (True, attached (sim_idle\<lparr>link := True, timeout_set := Some 10000\<rparr>))
   \<and> bind_outcome
         (setTimeout (build_of ESP8266 False) sim_ops
            (fresh (build_of ESP8266 False) (sim_idle\<lparr>link := True\<rparr>)) 10000)
         (\<lambda>(r, sa). case connected sim_ops sa of (c, sb) \<Rightarrow> Returns (c \<noteq> 0, sb))
     = Returns (True, fresh (build_of ESP8266 False)
                        (sim_idle\<lparr>link := True, timeout_set := Some 10000\<rparr>))"
proof -
  have esp32:
    "setTimeout (build_of ESP32 False) sim_ops (fresh (build_of ESP32 False) sim_idle) 5000
     = Returns (0, (fresh (build_of ESP32 False) (sim_idle\<lparr>timeout_set := Some 5\<rparr>))
                     \<lparr>timeoutmSec := 5000\<rparr>)"
    using timeout_cases [where B = "build_of ESP32 False" and ops = sim_ops and p = 1
        and s = "fresh (build_of ESP32 False) sim_idle" and t = 5000,
        THEN conjunct2, THEN conjunct2, THEN conjunct2, THEN conjunct1]
    by (simp add: sim_defs)
  have esp8266:
    "setTimeout (build_of ESP8266 False) sim_ops (fresh (build_of ESP8266 False) sim_idle) 5000
     = Returns (1, (fresh (build_of ESP8266 False) (sim_idle\<lparr>timeout_set := Some 5000\<rparr>))
                     \<lparr>timeoutmSec := 5000\<rparr>)"
    using timeout_cases [where B = "build_of ESP8266 False" and ops = sim_ops and p = 1
        and s = "fresh (build_of ESP8266 False) sim_idle" and t = 5000,
        THEN conjunct2, THEN conjunct2, THEN conjunct2, THEN conjunct2, THEN conjunct1]
    by (simp add: sim_defs)
  have external:
    "setTimeout (build_of ESP32 True) sim_ops (attached sim_idle) 5000
     = Returns (1, (attached sim_idle)\<lparr>timeoutmSec := 5000\<rparr>)"
    using timeout_cases [where B = "build_of ESP32 True" and ops = sim_ops
        and s = "attached sim_idle" and t = 5000,
        THEN conjunct2, THEN conjunct2, THEN conjunct1]
    by (simp add: sim_defs)
  have dial:
    "connect sample_codes sim_ops (fresh (build_of ESP8266 False) sim_idle)
     = Returns (True, fresh (build_of ESP8266 False)
                        (sim_idle\<lparr>link := True, timeout_set := Some 10000\<rparr>))"
    using timeout_cases [where B = "build_of ESP8266 False" and K = sample_codes
        and ops = sim_ops and p = 1
        and s = "fresh (build_of ESP8266 False) sim_idle" and ec = sim_idle and ret = 1
        and ed = "sim_idle\<lparr>link := True\<rparr>",
        THEN conjunct2, THEN conjunct2, THEN conjunct2, THEN conjunct2, THEN conjunct2,
        THEN conjunct1]
    by (simp add: sim_defs)
  have dial_external:
    "connect sample_codes sim_ops (attached sim_idle)
     = Returns (True, attached (sim_idle\<lparr>link := True, timeout_set := Some 10000\<rparr>))"
    using timeout_cases [where B = "build_of ESP32 True" and K = sample_codes
        and ops = sim_ops and p = 1
        and s = "attached sim_idle" and ec = sim_idle and ret = 1
        and ed = "sim_idle\<lparr>link := True\<rparr>",
        THEN conjunct2, THEN conjunct2, THEN conjunct2, THEN conjunct2, THEN conjunct2,
        THEN conjunct1]
    by (simp add: sim_defs)
  have reapplied:
    "bind_outcome
         (setTimeout (build_of ESP8266 False) sim_ops
            (fresh (build_of ESP8266 False) (sim_idle\<lparr>link := True\<rparr>)) 10000)
         (\<lambda>(r, sa). case connected sim_ops sa of (c, sb) \<Rightarrow> Returns (c \<noteq> 0, sb))
     = Returns (True, fresh (build_of ESP8266 False)
                        (sim_idle\<lparr>link := True, timeout_set := Some 10000\<rparr>))"
    using dial
      timeout_cases [where B = "build_of ESP8266 False" and K = sample_codes
        and ops = sim_ops and p = 1
        and s = "fresh (build_of ESP8266 False) sim_idle" and ec = sim_idle and ret = 1
        and ed = "sim_idle\<lparr>link := True\<rparr>",
        THEN conjunct2, THEN conjunct2, THEN conjunct2, THEN conjunct2, THEN conjunct2,
        THEN conjunct2]
    by (simp add: sim_defs)
  show ?thesis
    by (intro conjI esp32 esp8266 external dial dial_external reapplied)
qed

text \<open>
  The claim as stated fails in a build with an external client: \<^verbatim>\<open>setTimeout(5000)\<close>
  stores the value and the client never sees it.
\<close>

theorem timeout_counterexample:
  "setTimeout (build_of ESP32 True) sim_ops (attached sim_idle) 5000
     = Returns (1, (attached sim_idle)\<lparr>timeoutmSec := 5000\<rparr>)
   \<and> client (attached sim_idle) = Some 1
   \<and> timeout_set (env ((attached sim_idle)\<lparr>timeoutmSec := 5000\<rparr>)) = None"
  by (simp add: sim_defs timeout_defs)

text \<open>
  On ESP32 with its own client the two paths disagree on the unit: \<^verbatim>\<open>setTimeout(10000)\<close>
  hands the client 10, and \<^verbatim>\<open>connect()\<close> hands the same client the stored 10000.
\<close>

lemma timeout_units_ESP32:
  "setTimeout (build_of ESP32 False) sim_ops (fresh (build_of ESP32 False) sim_idle) 10000
     = Returns (0, fresh (build_of ESP32 False) (sim_idle\<lparr>timeout_set := Some 10\<rparr>))
   \<and> connect sample_codes sim_ops (fresh (build_of ESP32 False) (sim_idle\<lparr>timeout_set := Some 10\<rparr>))
     = Returns (True, fresh (build_of ESP32 False)
                        (sim_idle\<lparr>link := True, timeout_set := Some 10000\<rparr>))"
  by (simp add: sim_defs timeout_defs)

end
